theory Spec2Isabelle
  imports Main "HOL-Library.Sublist"
begin

section \<open>The upstream service and the clock, as the program sees them\<close>

text \<open>
  Every function of the repository that matters here talks to mail.tm through \<open>fetch\<close> and
  waits with \<open>setTimeout\<close>. Both effects are explicit in the model.

  An awaited promise either rejects (the \<open>await\<close> throws an error whose \<open>message\<close> is the
  string carried by \<open>Rejects\<close>) or resolves to a value.
\<close>

datatype 'a promise = Rejects string | Resolves 'a

text \<open>
  What the code reads off a \<open>Response\<close>: its \<open>status\<close>, the outcome of \<open>await res.text()\<close>,
  and the outcome of reading \<open>(await res.json()).id\<close> (\<open>None\<close> when the field is absent).
  \<open>res.ok\<close> is derived from the status, as in the Fetch standard: true for 200 to 299.
\<close>

record response =
  status :: nat
  text_body :: "string promise"
  json_id :: "string option promise"

definition ok :: "response \<Rightarrow> bool" where
  "ok res = (200 \<le> status res \<and> status res \<le> 299)"

text \<open>
  The network is an oracle: \<open>net n\<close> is the outcome of the \<open>n\<close>-th \<open>fetch\<close> of the run
  (counted from 0). A \<open>trace\<close> is the log of what the run has done so far, in the order in
  which it did it: a \<open>Fetched\<close> for every \<open>fetch\<close> issued and a \<open>Slept ms\<close> for every delay
  awaited. The number of fetches issued, \<open>calls\<close>, and the list of delays, \<open>sleeps\<close>, are read
  off the log.
\<close>

type_synonym network = "nat \<Rightarrow> response promise"

datatype event = Fetched | Slept nat

type_synonym trace = "event list"

definition calls :: "trace \<Rightarrow> nat" where
  "calls t = length (filter (\<lambda>e. e = Fetched) t)"

definition sleeps :: "trace \<Rightarrow> nat list" where
  "sleeps t = concat (map (\<lambda>e. case e of Fetched \<Rightarrow> [] | Slept ms \<Rightarrow> [ms]) t)"

definition fetched :: "trace \<Rightarrow> trace" where
  "fetched t = t @ [Fetched]"

definition sleep :: "nat \<Rightarrow> trace \<Rightarrow> trace" where
  "sleep ms t = t @ [Slept ms]"

section \<open>Strings and numbers\<close>

text \<open>
  \<open>s.includes(sub)\<close>: \<open>sub\<close> occurs in \<open>s\<close> as a contiguous substring. The two needles
  the code searches for are ASCII, so searching bytes and searching UTF-16 units agree.
\<close>

fun str_includes :: "string \<Rightarrow> string \<Rightarrow> bool" where
  "str_includes [] sub = (sub = [])"
| "str_includes (c # cs) sub = (prefix sub (c # cs) \<or> str_includes cs sub)"

text \<open>
  Numbers are JavaScript doubles in the source. They are exact on the integers up to
  \<open>Number.MAX_SAFE_INTEGER = 2^53 - 1\<close>: there \<open>i++\<close> adds one and \<open>String(n)\<close>, which is also
  what a template literal makes of a number, is the decimal digits of \<open>n\<close>. Beyond that
  \<open>String\<close> prints the shortest digits that round to the same double, in exponent notation
  from \<open>10^21\<close> on, and \<open>i++\<close> no longer counts. The model has naturals for such numbers and
  says what \<open>String\<close> returns only up to \<open>MAX_SAFE_INTEGER\<close>; beyond it the result is left
  unspecified, so that nothing is proved about it. The numbers the code prints besides the
  operator's \<open>count\<close> and the indexes up to it are HTTP statuses, 16-bit numbers in the Fetch
  standard, and lengths of arrays, all well within the range.
\<close>

definition MAX_SAFE_INTEGER :: nat where
  "MAX_SAFE_INTEGER = 9007199254740991"

definition digit_char :: "nat \<Rightarrow> char" where
  "digit_char d = ''0123456789'' ! d"

function decimal_digits :: "nat \<Rightarrow> string" where
  "decimal_digits n =
     (if n < 10 then [digit_char n] else decimal_digits (n div 10) @ [digit_char (n mod 10)])"
  by pat_completeness auto
termination
  by (relation "measure id") auto

declare decimal_digits.simps [simp del]

definition String_num :: "nat \<Rightarrow> string" where
  "String_num n = (if n \<le> MAX_SAFE_INTEGER then decimal_digits n else undefined)"

text \<open>
  \<^verbatim>\<open>function pad(num, size) { let s = String(num); while (s.length < size) s = "0" + s; return s; }\<close>
\<close>

function pad_loop :: "string \<Rightarrow> nat \<Rightarrow> string" where
  "pad_loop s sz = (if length s < sz then pad_loop (CHR ''0'' # s) sz else s)"
  by pat_completeness auto
termination
  by (relation "measure (\<lambda>(s, sz). sz - length s)") auto

declare pad_loop.simps [simp del]

definition pad :: "nat \<Rightarrow> nat \<Rightarrow> string" where
  "pad num sz = pad_loop (String_num num) sz"

text \<open>\<^verbatim>\<open>const padSize = String(count).length < 2 ? 2 : String(count).length;\<close>\<close>

definition padSize :: "nat \<Rightarrow> nat" where
  "padSize count = (if length (String_num count) < 2 then 2 else length (String_num count))"

text \<open>The value a string of decimal digits denotes (used only to state properties).\<close>

definition digit_value :: "char \<Rightarrow> nat" where
  "digit_value c = of_char c - 48"

definition decimal_value :: "string \<Rightarrow> nat" where
  "decimal_value s = foldl (\<lambda>acc c. 10 * acc + digit_value c) 0 s"

definition is_digit :: "char \<Rightarrow> bool" where
  "is_digit c = (c \<in> set ''0123456789'')"

section \<open>Result records\<close>

text \<open>
  The request \<open>{address, password}\<close>; the CLI's result adds \<open>success\<close> and \<open>message\<close>; the
  workflow's result (\<open>accountResultSchema\<close>) adds \<open>accountId\<close> as well.
\<close>

record account_request =
  address :: string
  password :: string

record cli_result = account_request +
  success :: bool
  message :: string

record account_result = cli_result +
  accountId :: string

section \<open>The CLI script: \<open>createAccount\<close> and the loop of \<open>main\<close>\<close>

text \<open>
  One iteration of the \<open>for\<close> loop of \<open>createAccount\<close> either returns from the function or
  falls through to the next iteration. Both the 429 branch and the \<open>catch\<close> block do the same
  before the next iteration: \<open>await sleep(delay); delay *= 2\<close>.
\<close>

datatype 'r iteration = Return 'r | Again

definition createAccount_try ::
  "response promise \<Rightarrow> string \<Rightarrow> string \<Rightarrow> nat \<Rightarrow> nat \<Rightarrow> cli_result iteration" where
  "createAccount_try fetch_result addr pw retries attempt =
     (let catch = (\<lambda>err_message.
            if attempt = retries
            then Return \<lparr>address = addr, password = pw, success = False, message = err_message\<rparr>
            else Again)
      in case fetch_result of
           Rejects m \<Rightarrow> catch m
         | Resolves res \<Rightarrow>
             if ok res
             then Return \<lparr>address = addr, password = pw, success = True, message = ''Created''\<rparr>
             else (case text_body res of
                     Rejects m \<Rightarrow> catch m
                   | Resolves errorText \<Rightarrow>
                       if status res = 422 \<and> str_includes errorText ''already used''
                       then Return \<lparr>address = addr, password = pw, success = True,
                                     message = ''Already exists''\<rparr>
                       else if status res = 429 then Again
                       else Return \<lparr>address = addr, password = pw, success = False,
                                     message = ''HTTP '' @ String_num (status res) @ '': '' @ errorText\<rparr>))"

function createAccount_loop ::
  "network \<Rightarrow> string \<Rightarrow> string \<Rightarrow> nat \<Rightarrow> nat \<Rightarrow> nat \<Rightarrow> trace \<Rightarrow> cli_result \<times> trace" where
  "createAccount_loop net addr pw retries attempt delay t =
     (if attempt \<le> retries
      then (case createAccount_try (net (calls t)) addr pw retries attempt of
              Return r \<Rightarrow> (r, fetched t)
            | Again \<Rightarrow>
                createAccount_loop net addr pw retries (attempt + 1) (delay * 2)
                  (sleep delay (fetched t)))
      else (\<lparr>address = addr, password = pw, success = False, message = ''Max retries reached''\<rparr>, t))"
  by pat_completeness auto
termination
  by (relation "measure (\<lambda>(net, addr, pw, retries, attempt, delay, t). Suc retries - attempt)") auto

declare createAccount_loop.simps [simp del]

text \<open>
  \<open>createAccount(address, password, retries = 7)\<close>. The two copies of the script differ in one
  constant, here \<open>pace\<close>: the first has \<open>let delay = 3000\<close> and \<open>sleep(3000)\<close> between
  accounts, the second 1500 in both places.
\<close>

definition createAccount :: "network \<Rightarrow> nat \<Rightarrow> string \<Rightarrow> string \<Rightarrow> nat \<Rightarrow> trace \<Rightarrow> cli_result \<times> trace" where
  "createAccount net pace addr pw retries t = createAccount_loop net addr pw retries 1 pace t"

text \<open>
  The loop of \<open>main\<close>: \<open>for (let i = 1; i <= count; i++)\<close>. An iteration builds the address,
  awaits \<open>createAccount(address, password)\<close> (the default \<open>retries = 7\<close>), pushes the result,
  bumps one of the two counters, and sleeps \<open>pace\<close> unless it was the last one.
\<close>

record batch =
  results :: "cli_result list"
  successCount :: nat
  failCount :: nat

definition main_iteration ::
  "network \<Rightarrow> nat \<Rightarrow> string \<Rightarrow> string \<Rightarrow> string \<Rightarrow> nat \<Rightarrow> nat \<Rightarrow> nat \<Rightarrow> batch \<times> trace \<Rightarrow> batch \<times> trace" where
  "main_iteration net pace baseUsername domain pw count padSz i bt =
     (let username = baseUsername @ pad i padSz;
          addr = username @ ''@'' @ domain;
          created = createAccount net pace addr pw 7 (snd bt);
          result = fst created;
          b1 = (fst bt)\<lparr>results := results (fst bt) @ [result]\<rparr>;
          b2 = (if success result then b1\<lparr>successCount := successCount b1 + 1\<rparr>
                else b1\<lparr>failCount := failCount b1 + 1\<rparr>);
          t2 = (if i < count then sleep pace (snd created) else snd created)
      in (b2, t2))"

function main_loop ::
  "network \<Rightarrow> nat \<Rightarrow> string \<Rightarrow> string \<Rightarrow> string \<Rightarrow> nat \<Rightarrow> nat \<Rightarrow> nat \<Rightarrow> batch \<times> trace \<Rightarrow> batch \<times> trace" where
  "main_loop net pace baseUsername domain pw count padSz i bt =
     (if i \<le> count
      then main_loop net pace baseUsername domain pw count padSz (i + 1)
             (main_iteration net pace baseUsername domain pw count padSz i bt)
      else bt)"
  by pat_completeness auto
termination
  by (relation "measure (\<lambda>(net, pace, baseUsername, domain, pw, count, padSz, i, bt). Suc count - i)")
    auto

declare main_loop.simps [simp del]

text \<open>
  The part of \<open>main\<close> that runs the batch, from \<open>const padSize = ...\<close> to the end of the loop,
  started on whatever trace the prompts and the existence check left.
\<close>

definition main_batch ::
  "network \<Rightarrow> nat \<Rightarrow> string \<Rightarrow> string \<Rightarrow> string \<Rightarrow> nat \<Rightarrow> trace \<Rightarrow> batch \<times> trace" where
  "main_batch net pace baseUsername domain pw count t =
     main_loop net pace baseUsername domain pw count (padSize count) 1
       (\<lparr>results = [], successCount = 0, failCount = 0\<rparr>, t)"

text \<open>
  \<open>checkAccountExists\<close>: \<open>try { const res = await fetch(.../token...); return res.ok; }
  catch { return false; }\<close>. The function is \<open>async\<close>, so it yields a promise; the body of
  the \<open>try\<close> is kept apart from the \<open>catch\<close>.
\<close>

definition checkAccountExists_try :: "response promise \<Rightarrow> bool promise" where
  "checkAccountExists_try fetch_result =
     (case fetch_result of Rejects m \<Rightarrow> Rejects m | Resolves res \<Rightarrow> Resolves (ok res))"

definition checkAccountExists :: "response promise \<Rightarrow> bool promise" where
  "checkAccountExists fetch_result =
     (case checkAccountExists_try fetch_result of
        Rejects m \<Rightarrow> Resolves False
      | Resolves b \<Rightarrow> Resolves b)"

section \<open>The workflow: the tools of \<open>mailTmTool.ts\<close> and the steps around them\<close>

text \<open>\<open>createMailTmAccount.execute\<close>: one POST to \<open>/accounts\<close>, classified.\<close>

definition createMailTmAccount :: "response promise \<Rightarrow> account_request \<Rightarrow> account_result" where
  "createMailTmAccount fetch_result inputData =
     (let catch = (\<lambda>err_message.
            \<lparr>address = address inputData, password = password inputData, success = False,
             message = ''Error: '' @ err_message, accountId = ''''\<rparr>)
      in case fetch_result of
           Rejects m \<Rightarrow> catch m
         | Resolves response \<Rightarrow>
             if \<not> ok response
             then (case text_body response of
                     Rejects m \<Rightarrow> catch m
                   | Resolves errorText \<Rightarrow>
                       if status response = 422 \<and> str_includes errorText ''already used''
                       then \<lparr>address = address inputData, password = password inputData,
                             success = True, message = ''Account already exists'',
                             accountId = ''already-exists''\<rparr>
                       else \<lparr>address = address inputData, password = password inputData,
                             success = False,
                             message = ''Failed: '' @ String_num (status response) @ '' - '' @ errorText,
                             accountId = ''''\<rparr>)
             else (case json_id response of
                     Rejects m \<Rightarrow> catch m
                   | Resolves result_id \<Rightarrow>
                       \<lparr>address = address inputData, password = password inputData,
                        success = True, message = ''Account created successfully'',
                        accountId = (case result_id of None \<Rightarrow> '''' | Some i \<Rightarrow> i)\<rparr>))"

text \<open>
  The step calls the tool through the framework (\<open>createMailTmAccount.execute!(...)\<close>), which
  checks the input against the tool's schema first and hands back an object with an \<open>error\<close>
  flag and a \<open>message\<close> instead of running the tool when the check fails. The framework is a
  library, so its check is a parameter \<open>validate\<close>: \<open>None\<close> when the input passes.
\<close>

datatype tool_return = ValidationError string | Output account_result

definition createMailTmAccount_execute ::
  "(account_request \<Rightarrow> string option) \<Rightarrow> network \<Rightarrow> account_request \<Rightarrow> trace \<Rightarrow> tool_return \<times> trace" where
  "createMailTmAccount_execute validate net inputData t =
     (case validate inputData of
        Some m \<Rightarrow> (ValidationError m, t)
      | None \<Rightarrow> (Output (createMailTmAccount (net (calls t)) inputData), fetched t))"

text \<open>
  \<open>createSingleAccount\<close>: \<open>const maxRetries = 7; for (let attempt = 0; attempt <= maxRetries;
  attempt++)\<close>, each iteration sleeping before it calls the tool.
\<close>

definition maxRetries :: nat where
  "maxRetries = 7"

definition attempt_delay :: "nat \<Rightarrow> nat" where
  "attempt_delay attempt = (if attempt = 0 then 3000 else 3000 * 2 ^ (attempt - 1))"

definition createSingleAccount_iteration ::
  "tool_return \<Rightarrow> account_request \<Rightarrow> nat \<Rightarrow> account_result iteration" where
  "createSingleAccount_iteration result inputData attempt =
     (case result of
        ValidationError m \<Rightarrow>
          Return \<lparr>address = address inputData, password = password inputData, success = False,
                  message = ''Validation error: '' @ m, accountId = ''''\<rparr>
      | Output typedResult \<Rightarrow>
          if success typedResult then Return typedResult
          else if str_includes (message typedResult) ''429'' \<and> attempt < maxRetries then Again
          else Return typedResult)"

function createSingleAccount_loop ::
  "(account_request \<Rightarrow> string option) \<Rightarrow> network \<Rightarrow> account_request \<Rightarrow> nat \<Rightarrow> trace \<Rightarrow> account_result \<times> trace" where
  "createSingleAccount_loop validate net inputData attempt t =
     (if attempt \<le> maxRetries
      then (let called = createMailTmAccount_execute validate net inputData
                           (sleep (attempt_delay attempt) t)
            in case createSingleAccount_iteration (fst called) inputData attempt of
                 Return r \<Rightarrow> (r, snd called)
               | Again \<Rightarrow> createSingleAccount_loop validate net inputData (attempt + 1) (snd called))
      else (\<lparr>address = address inputData, password = password inputData, success = False,
             message = ''Max retries exceeded due to rate limiting'', accountId = ''''\<rparr>, t))"
  by pat_completeness auto
termination
  by (relation "measure (\<lambda>(validate, net, inputData, attempt, t). Suc maxRetries - attempt)") auto

declare createSingleAccount_loop.simps [simp del]

definition createSingleAccount ::
  "(account_request \<Rightarrow> string option) \<Rightarrow> network \<Rightarrow> account_request \<Rightarrow> trace \<Rightarrow> account_result \<times> trace" where
  "createSingleAccount validate net inputData t = createSingleAccount_loop validate net inputData 0 t"

text \<open>
  \<open>prepareAccountList\<close>: the loop \<open>for (let i = 1; i <= totalAccounts; i++) accounts.push(...)\<close>
  with \<open>totalAccounts = 100\<close> and the fixed password, on the first domain the domain tool
  returned. What \<open>fetchMailTmDomains.execute!\<close> hands back is a parameter: the await throws,
  or it yields an error object, or the domain list.
\<close>

function accounts_loop :: "string \<Rightarrow> string \<Rightarrow> nat \<Rightarrow> nat \<Rightarrow> account_request list \<Rightarrow> account_request list" where
  "accounts_loop domain pw totalAccounts i accounts =
     (if i \<le> totalAccounts
      then accounts_loop domain pw totalAccounts (i + 1)
             (accounts @ [\<lparr>address = ''usmansreplitaccount'' @ String_num i @ ''@'' @ domain,
                           password = pw\<rparr>])
      else accounts)"
  by pat_completeness auto
termination
  by (relation "measure (\<lambda>(domain, pw, totalAccounts, i, accounts). Suc totalAccounts - i)") auto

declare accounts_loop.simps [simp del]

datatype domains_return = DomainsError string | DomainsOutput "string list"

definition prepareAccountList :: "domains_return promise \<Rightarrow> account_request list promise" where
  "prepareAccountList domainResult =
     (case domainResult of
        Rejects m \<Rightarrow> Rejects m
      | Resolves (DomainsError m) \<Rightarrow> Rejects (''Failed to fetch domains: '' @ m)
      | Resolves (DomainsOutput domains) \<Rightarrow>
          (case domains of
             [] \<Rightarrow> Rejects ''No domains available from mail.tm''
           | domain # _ \<Rightarrow> Resolves (accounts_loop domain ''Usman@relplit123456'' 100 1 [])))"

text \<open>
  \<open>exportAccountsToFile.execute\<close>: the two filters, the two counts and the rendered file.
  The timestamp \<open>new Date().toISOString()\<close> and the resolved path are parameters.
\<close>

record export_output =
  filePath :: string
  totalCreated :: nat
  totalFailed :: nat
  fileContent :: string

definition exportAccountsToFile :: "string \<Rightarrow> string \<Rightarrow> account_result list \<Rightarrow> export_output" where
  "exportAccountsToFile now path accounts =
     (let successfulAccounts = filter (\<lambda>a. success a) accounts;
          failedAccounts = filter (\<lambda>a. \<not> success a) accounts;
          header =
            ''====================================\<newline>'' @
            ''  MAIL.TM ACCOUNTS - BULK EXPORT\<newline>'' @
            ''  Generated: '' @ now @ ''\<newline>'' @
            ''====================================\<newline>\<newline>'' @
            ''Total Created: '' @ String_num (length successfulAccounts) @ ''\<newline>'' @
            ''Total Failed: '' @ String_num (length failedAccounts) @ ''\<newline>\<newline>'' @
            ''--- SUCCESSFUL ACCOUNTS ---\<newline>\<newline>'';
          successful = concat (map (\<lambda>account.
            ''Email: '' @ address account @ ''\<newline>'' @
            ''Password: '' @ password account @ ''\<newline>'' @
            ''Account ID: '' @ accountId account @ ''\<newline>'' @
            ''---\<newline>'') successfulAccounts);
          failed =
            (if length failedAccounts > 0
             then ''\<newline>--- FAILED ACCOUNTS ---\<newline>\<newline>'' @
                  concat (map (\<lambda>account.
                    ''Email: '' @ address account @ ''\<newline>'' @
                    ''Reason: '' @ message account @ ''\<newline>'' @
                    ''---\<newline>'') failedAccounts)
             else '''')
      in \<lparr>filePath = path,
          totalCreated = length successfulAccounts,
          totalFailed = length failedAccounts,
          fileContent = header @ successful @ failed\<rparr>)"

text \<open>
  Modelled from the spec: the framework's \<open>.foreach(step, { concurrency: 1 })\<close>, which is not
  part of the repository. By the spec's BatchRunner it is sequential, with a single request in
  flight: for each request in order it runs the step and appends its output.
\<close>

fun foreach :: "('a \<Rightarrow> trace \<Rightarrow> 'b \<times> trace) \<Rightarrow> 'a list \<Rightarrow> trace \<Rightarrow> 'b list \<times> trace" where
  "foreach step [] t = ([], t)"
| "foreach step (x # xs) t =
     (let stepped = step x t; rest = foreach step xs (snd stepped)
      in (fst stepped # fst rest, snd rest))"

text \<open>
  \<open>automationWorkflow\<close> after its first step: \<open>.foreach(createSingleAccount, { concurrency: 1 })
  .then(exportResults)\<close>, where \<open>exportResults\<close> passes the list to \<open>exportAccountsToFile\<close> and
  returns its path and counts.
\<close>

definition automationWorkflow_batch ::
  "(account_request \<Rightarrow> string option) \<Rightarrow> network \<Rightarrow> string \<Rightarrow> string \<Rightarrow> account_request list \<Rightarrow> trace
     \<Rightarrow> account_result list \<times> export_output \<times> trace" where
  "automationWorkflow_batch validate net now path requests t =
     (let ran = foreach (createSingleAccount validate net) requests t
      in (fst ran, exportAccountsToFile now path (fst ran), snd ran))"

section \<open>The outcome the claims call rate-limited\<close>

text \<open>
  A POST is rate-limited when it is answered with status 429 and the body of the answer can
  be read. Both programs read the body of every answer that is not 2xx before they look at
  the status.
\<close>

definition rate_limited :: "response promise \<Rightarrow> bool" where
  "rate_limited fetch_result =
     (case fetch_result of
        Rejects m \<Rightarrow> False
      | Resolves res \<Rightarrow>
          status res = 429 \<and> (case text_body res of Rejects m \<Rightarrow> False | Resolves body \<Rightarrow> True))"

section \<open>Facts about the strings and the loops\<close>

subsection \<open>The log\<close>

lemma calls_Nil: "calls [] = 0"
  and calls_Cons_Fetched: "calls (Fetched # t) = Suc (calls t)"
  and calls_Cons_Slept: "calls (Slept ms # t) = calls t"
  and calls_append: "calls (t @ u) = calls t + calls u"
  by (simp_all add: calls_def)

lemma sleeps_Nil: "sleeps [] = []"
  and sleeps_Cons_Fetched: "sleeps (Fetched # t) = sleeps t"
  and sleeps_Cons_Slept: "sleeps (Slept ms # t) = ms # sleeps t"
  and sleeps_append: "sleeps (t @ u) = sleeps t @ sleeps u"
  by (simp_all add: sleeps_def)

lemmas log_simps =
  calls_Nil calls_Cons_Fetched calls_Cons_Slept calls_append
  sleeps_Nil sleeps_Cons_Fetched sleeps_Cons_Slept sleeps_append

lemma calls_fetched: "calls (fetched t) = Suc (calls t)"
  and calls_sleep: "calls (sleep ms t) = calls t"
  and sleeps_fetched: "sleeps (fetched t) = sleeps t"
  and sleeps_sleep: "sleeps (sleep ms t) = sleeps t @ [ms]"
  by (simp_all add: fetched_def sleep_def log_simps)

subsection \<open>Decimal strings and padding\<close>

lemma str_includes_sublist: "str_includes s sub \<longleftrightarrow> sublist sub s"
  by (induction s) (simp_all add: sublist_Cons_right)

lemma String_num_safe: "n \<le> MAX_SAFE_INTEGER \<Longrightarrow> String_num n = decimal_digits n"
  by (simp add: String_num_def)

lemma digit_cases: "d < 10 \<Longrightarrow> d \<in> {0, 1, 2, 3, 4, 5, 6, 7, 8, 9::nat}"
  by auto

lemma digit_value_digit_char: "d < 10 \<Longrightarrow> digit_value (digit_char d) = d"
  using digit_cases [of d] by (auto simp: digit_value_def digit_char_def)

lemma is_digit_digit_char: "d < 10 \<Longrightarrow> is_digit (digit_char d)"
  using digit_cases [of d] by (auto simp: is_digit_def digit_char_def)

lemma decimal_value_snoc: "decimal_value (s @ [c]) = 10 * decimal_value s + digit_value c"
  by (simp add: decimal_value_def)

lemma decimal_value_digits: "decimal_value (decimal_digits n) = n"
proof (induction n rule: decimal_digits.induct)
  case (1 n)
  show ?case
  proof (cases "n < 10")
    case True
    then show ?thesis
      by (subst decimal_digits.simps) (simp add: decimal_value_def digit_value_digit_char)
  next
    case False
    with 1 show ?thesis
      by (subst decimal_digits.simps) (simp add: decimal_value_snoc digit_value_digit_char)
  qed
qed

lemma digits_decimal_digits: "list_all is_digit (decimal_digits n)"
proof (induction n rule: decimal_digits.induct)
  case (1 n)
  then show ?case
    by (subst decimal_digits.simps) (simp add: is_digit_digit_char)
qed

lemma length_digits_pos: "0 < length (decimal_digits n)"
  by (subst decimal_digits.simps) simp

lemma length_digits_mono: "i \<le> n \<Longrightarrow> length (decimal_digits i) \<le> length (decimal_digits n)"
proof (induction n arbitrary: i rule: decimal_digits.induct)
  case (1 n)
  show ?case
  proof (cases "i < 10")
    case True
    then have "length (decimal_digits i) = 1"
      by (subst decimal_digits.simps) simp
    with length_digits_pos [of n] show ?thesis by (simp add: Suc_le_eq)
  next
    case False
    with 1(2) have n: "\<not> n < 10" by simp
    from 1(2) have "i div 10 \<le> n div 10" by (rule div_le_mono)
    with 1(1) n have "length (decimal_digits (i div 10)) \<le> length (decimal_digits (n div 10))" by simp
    with False n show ?thesis
      by (subst decimal_digits.simps, subst (2) decimal_digits.simps) simp
  qed
qed

lemma pad_loop_replicate: "pad_loop s sz = replicate (sz - length s) CHR ''0'' @ s"
proof (induction s sz rule: pad_loop.induct)
  case (1 s sz)
  show ?case
  proof (cases "length s < sz")
    case True
    then have "sz - length s = Suc (sz - Suc (length s))" by simp
    with 1 True show ?thesis
      by (subst pad_loop.simps) (simp add: replicate_app_Cons_same)
  next
    case False
    then show ?thesis
      by (subst pad_loop.simps) simp
  qed
qed

lemma pad_replicate: "pad i sz = replicate (sz - length (String_num i)) CHR ''0'' @ String_num i"
  by (simp add: pad_def pad_loop_replicate)

lemma decimal_value_zeros: "decimal_value (replicate k CHR ''0'' @ s) = decimal_value s"
  by (induction k) (simp_all add: decimal_value_def digit_value_def)

lemma decimal_value_pad: "i \<le> MAX_SAFE_INTEGER \<Longrightarrow> decimal_value (pad i sz) = i"
  by (simp add: pad_replicate decimal_value_zeros String_num_safe decimal_value_digits)

lemma padSize_max: "padSize count = max 2 (length (String_num count))"
  by (simp add: padSize_def)

lemma length_pad_uniform:
  "i \<le> count \<Longrightarrow> count \<le> MAX_SAFE_INTEGER \<Longrightarrow> length (pad i (padSize count)) = padSize count"
  using length_digits_mono [of i count] by (simp add: pad_replicate padSize_def String_num_safe)

lemma digits_zeros: "list_all is_digit (replicate k CHR ''0'')"
  by (induction k) (simp_all add: is_digit_def)

lemma digits_pad: "i \<le> MAX_SAFE_INTEGER \<Longrightarrow> list_all is_digit (pad i sz)"
  by (simp add: pad_replicate String_num_safe digits_decimal_digits digits_zeros)

lemma String_num_small:
  "String_num (Suc 0) = ''1''" "String_num 1 = ''1''" "String_num 5 = ''5''" "String_num 100 = ''100''"
  "String_num 429 = ''429''" "String_num 503 = ''503''"
  by (simp_all add: String_num_def MAX_SAFE_INTEGER_def decimal_digits.simps digit_char_def)

subsection \<open>The CLI loops\<close>

lemma createAccount_try_request:
  "createAccount_try f addr pw R k = Return r \<Longrightarrow> address r = addr \<and> password r = pw"
  by (auto simp: createAccount_try_def Let_def split: promise.splits if_splits)

lemma createAccount_loop_request:
  "address (fst (createAccount_loop net addr pw R k d t)) = addr \<and>
   password (fst (createAccount_loop net addr pw R k d t)) = pw"
proof (induction net addr pw R k d t rule: createAccount_loop.induct)
  case (1 net addr pw R k d t)
  show ?case
  proof (cases "k \<le> R")
    case False
    then show ?thesis by (simp add: createAccount_loop.simps [of net addr pw R k d t])
  next
    case True
    show ?thesis
    proof (cases "createAccount_try (net (calls t)) addr pw R k")
      case (Return r)
      with True createAccount_try_request [OF Return] show ?thesis
        by (simp add: createAccount_loop.simps [of net addr pw R k d t])
    next
      case Again
      with True 1 show ?thesis
        by (simp add: createAccount_loop.simps [of net addr pw R k d t])
    qed
  qed
qed

lemma doubling_schedule:
  "d # map (\<lambda>j. d * 2 * 2 ^ j) [0..<m] = map (\<lambda>j. d * 2 ^ j) [0..<Suc m]" for d :: nat
proof -
  have "[0..<Suc m] = 0 # map Suc [0..<m]"
    by (simp add: upt_conv_Cons map_Suc_upt del: upt_Suc)
  then show ?thesis by (simp add: comp_def mult.assoc del: upt_Suc)
qed

lemma createAccount_loop_trace:
  "\<exists>m. m \<le> Suc R - k \<and>
       sleeps (snd (createAccount_loop net addr pw R k d t)) = sleeps t @ map (\<lambda>j. d * 2 ^ j) [0..<m] \<and>
       calls t + m \<le> calls (snd (createAccount_loop net addr pw R k d t)) \<and>
       calls (snd (createAccount_loop net addr pw R k d t)) \<le> calls t + Suc m \<and>
       calls (snd (createAccount_loop net addr pw R k d t)) \<le> calls t + (Suc R - k)"
proof (induction net addr pw R k d t rule: createAccount_loop.induct)
  case (1 net addr pw R k d t)
  show ?case
  proof (cases "k \<le> R")
    case False
    then show ?thesis
      by (simp add: createAccount_loop.simps [of net addr pw R k d t])
  next
    case True
    show ?thesis
    proof (cases "createAccount_try (net (calls t)) addr pw R k")
      case (Return r)
      with True have "createAccount_loop net addr pw R k d t = (r, fetched t)"
        by (simp add: createAccount_loop.simps [of net addr pw R k d t])
      with True show ?thesis
        by (intro exI [of _ 0]) (simp add: calls_fetched sleeps_fetched)
    next
      case Again
      with True have step: "createAccount_loop net addr pw R k d t =
          createAccount_loop net addr pw R (k + 1) (d * 2) (sleep d (fetched t))"
        by (simp add: createAccount_loop.simps [of net addr pw R k d t])
      from 1 [OF True Again] obtain m where m: "m \<le> Suc R - (k + 1)"
        "sleeps (snd (createAccount_loop net addr pw R (k + 1) (d * 2) (sleep d (fetched t)))) =
           sleeps (sleep d (fetched t)) @ map (\<lambda>j. d * 2 * 2 ^ j) [0..<m]"
        "calls (sleep d (fetched t)) + m \<le> calls (snd (createAccount_loop net addr pw R (k + 1) (d * 2) (sleep d (fetched t))))"
        "calls (snd (createAccount_loop net addr pw R (k + 1) (d * 2) (sleep d (fetched t)))) \<le> calls (sleep d (fetched t)) + Suc m"
        "calls (snd (createAccount_loop net addr pw R (k + 1) (d * 2) (sleep d (fetched t)))) \<le> calls (sleep d (fetched t)) + (Suc R - (k + 1))"
        by blast
      have sl: "sleeps (sleep d (fetched t)) = sleeps t @ [d]" "calls (sleep d (fetched t)) = calls t + 1"
        by (simp_all add: calls_fetched calls_sleep sleeps_fetched sleeps_sleep)
      show ?thesis
      proof (intro exI [of _ "Suc m"] conjI)
        show "Suc m \<le> Suc R - k" using m(1) True by simp
        show "sleeps (snd (createAccount_loop net addr pw R k d t)) = sleeps t @ map (\<lambda>j. d * 2 ^ j) [0..<Suc m]"
          unfolding step m(2) sl using doubling_schedule [of d m] by (simp del: upt_Suc)
        show "calls t + Suc m \<le> calls (snd (createAccount_loop net addr pw R k d t))"
          unfolding step using m(3) sl by simp
        show "calls (snd (createAccount_loop net addr pw R k d t)) \<le> calls t + Suc (Suc m)"
          unfolding step using m(4) sl by simp
        show "calls (snd (createAccount_loop net addr pw R k d t)) \<le> calls t + (Suc R - k)"
          unfolding step using m(5) sl True by simp
      qed
    qed
  qed
qed

lemma sum_doubling: "sum_list (map (\<lambda>j. d * 2 ^ j) [0..<m]) = d * (2 ^ m - 1)" for d :: nat
proof (induction m)
  case 0
  show ?case by simp
next
  case (Suc m)
  have "(1::nat) \<le> 2 ^ m" by simp
  then have "d * (2 ^ m - 1) + d * 2 ^ m = d * (2 ^ Suc m - 1)"
    by (simp add: algebra_simps diff_mult_distrib2)
  with Suc show ?case by simp
qed

lemma main_iteration_results:
  "\<exists>r. results (fst (main_iteration net pace base domain pw count padSz i bt)) = results (fst bt) @ [r] \<and>
       address r = base @ pad i padSz @ ''@'' @ domain \<and> password r = pw"
  using createAccount_loop_request [of net "base @ pad i padSz @ ''@'' @ domain" pw 7 1 pace "snd bt"]
  by (simp add: main_iteration_def Let_def createAccount_def)

lemma main_iteration_counts:
  "successCount (fst (main_iteration net pace base domain pw count padSz i bt)) +
   failCount (fst (main_iteration net pace base domain pw count padSz i bt)) =
   Suc (successCount (fst bt) + failCount (fst bt))"
  by (simp add: main_iteration_def Let_def)

lemma main_loop_results:
  "map address (results (fst (main_loop net pace base domain pw count padSz i bt))) =
     map address (results (fst bt)) @ map (\<lambda>j. base @ pad j padSz @ ''@'' @ domain) [i..<Suc count] \<and>
   map password (results (fst (main_loop net pace base domain pw count padSz i bt))) =
     map password (results (fst bt)) @ replicate (Suc count - i) pw \<and>
   successCount (fst (main_loop net pace base domain pw count padSz i bt)) +
   failCount (fst (main_loop net pace base domain pw count padSz i bt)) =
     successCount (fst bt) + failCount (fst bt) + (Suc count - i)"
proof (induction net pace base domain pw count padSz i bt rule: main_loop.induct)
  case (1 net pace base domain pw count padSz i bt)
  show ?case
  proof (cases "i \<le> count")
    case False
    then show ?thesis
      by (simp add: main_loop.simps [of net pace base domain pw count padSz i bt])
  next
    case True
    obtain r where r: "results (fst (main_iteration net pace base domain pw count padSz i bt)) = results (fst bt) @ [r]"
      "address r = base @ pad i padSz @ ''@'' @ domain" "password r = pw"
      using main_iteration_results by blast
    from True have up: "[i..<Suc count] = i # [i + 1..<Suc count]"
      by (simp add: upt_conv_Cons del: upt_Suc)
    from True have rep: "replicate (Suc count - i) pw = pw # replicate (Suc count - (i + 1)) pw"
      by (simp add: Suc_diff_le flip: replicate_Suc)
    from True have step: "main_loop net pace base domain pw count padSz i bt =
        main_loop net pace base domain pw count padSz (i + 1)
          (main_iteration net pace base domain pw count padSz i bt)"
      by (simp add: main_loop.simps [of net pace base domain pw count padSz i bt])
    show ?thesis
      unfolding step using 1 [OF True] True r main_iteration_counts [of net pace base domain pw count padSz i bt]
      by (simp add: up rep del: upt_Suc replicate_Suc)
  qed
qed

subsection \<open>The workflow steps\<close>

lemma createMailTmAccount_request:
  "address (createMailTmAccount f inputData) = address inputData \<and>
   password (createMailTmAccount f inputData) = password inputData"
  by (simp add: createMailTmAccount_def Let_def split: promise.splits)

lemma createMailTmAccount_message:
  "message (createMailTmAccount f inputData) \<noteq> ''Max retries exceeded due to rate limiting''"
  by (simp add: createMailTmAccount_def Let_def split: promise.splits)

lemma execute_cases:
  "(\<exists>m. validate inputData = Some m \<and>
        createMailTmAccount_execute validate net inputData t = (ValidationError m, t)) \<or>
   (validate inputData = None \<and>
      createMailTmAccount_execute validate net inputData t =
        (Output (createMailTmAccount (net (calls t)) inputData), fetched t))"
  by (cases "validate inputData") (simp_all add: createMailTmAccount_execute_def)

lemma createSingleAccount_iteration_Return:
  "createSingleAccount_iteration (fst (createMailTmAccount_execute validate net inputData t)) inputData k = Return r
   \<Longrightarrow> address r = address inputData \<and> password r = password inputData \<and>
       message r \<noteq> ''Max retries exceeded due to rate limiting''"
  using execute_cases [of validate inputData net t]
  by (auto simp: createSingleAccount_iteration_def createMailTmAccount_request createMailTmAccount_message
      split: if_splits)

lemma createSingleAccount_iteration_Again:
  "createSingleAccount_iteration (fst (createMailTmAccount_execute validate net inputData t)) inputData k = Again
   \<Longrightarrow> k < maxRetries \<and> snd (createMailTmAccount_execute validate net inputData t) = fetched t"
  using execute_cases [of validate inputData net t]
  by (auto simp: createSingleAccount_iteration_def split: if_splits)

lemma execute_trace:
  "sleeps (snd (createMailTmAccount_execute validate net inputData t)) = sleeps t \<and>
   calls t \<le> calls (snd (createMailTmAccount_execute validate net inputData t)) \<and>
   calls (snd (createMailTmAccount_execute validate net inputData t)) \<le> Suc (calls t)"
  using execute_cases [of validate inputData net t] by (auto simp: calls_fetched sleeps_fetched)

lemma createSingleAccount_loop_request:
  "k \<le> maxRetries \<Longrightarrow>
   address (fst (createSingleAccount_loop validate net inputData k t)) = address inputData \<and>
   password (fst (createSingleAccount_loop validate net inputData k t)) = password inputData \<and>
   message (fst (createSingleAccount_loop validate net inputData k t)) \<noteq>
     ''Max retries exceeded due to rate limiting''"
proof (induction validate net inputData k t rule: createSingleAccount_loop.induct)
  case (1 validate net inputData k t)
  let ?called = "createMailTmAccount_execute validate net inputData (sleep (attempt_delay k) t)"
  show ?case
  proof (cases "createSingleAccount_iteration (fst ?called) inputData k")
    case (Return r)
    with 1(2) createSingleAccount_iteration_Return [OF Return] show ?thesis
      by (simp add: createSingleAccount_loop.simps [of validate net inputData k t])
  next
    case Again
    from createSingleAccount_iteration_Again [OF Again] have "k + 1 \<le> maxRetries" by simp
    with 1(1) [OF 1(2) refl Again] 1(2) Again show ?thesis
      by (simp add: createSingleAccount_loop.simps [of validate net inputData k t])
  qed
qed

lemma createSingleAccount_loop_trace:
  "k \<le> maxRetries \<Longrightarrow>
   \<exists>n. 1 \<le> n \<and> k + n \<le> Suc maxRetries \<and>
       sleeps (snd (createSingleAccount_loop validate net inputData k t)) =
         sleeps t @ map attempt_delay [k..<k + n] \<and>
       calls (snd (createSingleAccount_loop validate net inputData k t)) \<le> calls t + n \<and>
       calls t + n \<le> Suc (calls (snd (createSingleAccount_loop validate net inputData k t)))"
proof (induction validate net inputData k t rule: createSingleAccount_loop.induct)
  case (1 validate net inputData k t)
  let ?t1 = "sleep (attempt_delay k) t"
  let ?called = "createMailTmAccount_execute validate net inputData ?t1"
  have t1: "sleeps ?t1 = sleeps t @ [attempt_delay k]" "calls ?t1 = calls t"
    by (simp_all add: calls_sleep sleeps_sleep)
  show ?case
  proof (cases "createSingleAccount_iteration (fst ?called) inputData k")
    case (Return r)
    with 1(2) have "createSingleAccount_loop validate net inputData k t = (r, snd ?called)"
      by (simp add: createSingleAccount_loop.simps [of validate net inputData k t])
    with 1(2) execute_trace [of validate net inputData ?t1] t1 show ?thesis
      by (intro exI [of _ 1]) simp
  next
    case Again
    from createSingleAccount_iteration_Again [OF Again]
    have k: "k + 1 \<le> maxRetries" and called: "snd ?called = fetched ?t1" by simp_all
    from 1(2) Again have step: "createSingleAccount_loop validate net inputData k t =
        createSingleAccount_loop validate net inputData (k + 1) (snd ?called)"
      by (simp add: createSingleAccount_loop.simps [of validate net inputData k t])
    from 1(1) [OF 1(2) refl Again k] obtain n where n: "1 \<le> n" "k + 1 + n \<le> Suc maxRetries"
      "sleeps (snd (createSingleAccount_loop validate net inputData (k + 1) (snd ?called))) =
         sleeps (snd ?called) @ map attempt_delay [k + 1..<k + 1 + n]"
      "calls (snd (createSingleAccount_loop validate net inputData (k + 1) (snd ?called))) \<le> calls (snd ?called) + n"
      "calls (snd ?called) + n \<le> Suc (calls (snd (createSingleAccount_loop validate net inputData (k + 1) (snd ?called))))"
      by blast
    have c: "sleeps (snd ?called) = sleeps t @ [attempt_delay k]" "calls (snd ?called) = calls t + 1"
      unfolding called by (simp_all add: calls_fetched calls_sleep sleeps_fetched sleeps_sleep)
    have up: "[k..<k + Suc n] = k # [k + 1..<k + 1 + n]"
      by (simp add: upt_conv_Cons del: upt_Suc)
    show ?thesis
    proof (intro exI [of _ "Suc n"] conjI)
      show "1 \<le> Suc n" by simp
      show "k + Suc n \<le> Suc maxRetries" using n(2) by simp
      show "sleeps (snd (createSingleAccount_loop validate net inputData k t)) =
          sleeps t @ map attempt_delay [k..<k + Suc n]"
        unfolding step n(3) c up by simp
      show "calls (snd (createSingleAccount_loop validate net inputData k t)) \<le> calls t + Suc n"
        unfolding step using n(4) c by simp
      show "calls t + Suc n \<le> Suc (calls (snd (createSingleAccount_loop validate net inputData k t)))"
        unfolding step using n(5) c by simp
    qed
  qed
qed

lemma sum_attempt_delay: "sum_list (map attempt_delay [0..<Suc n]) = 3000 * 2 ^ n"
  by (induction n) (simp_all add: attempt_delay_def)

lemma foreach_requests:
  "map address (fst (foreach (createSingleAccount validate net) requests t)) = map address requests \<and>
   map password (fst (foreach (createSingleAccount validate net) requests t)) = map password requests"
proof (induction requests arbitrary: t)
  case Nil
  show ?case by simp
next
  case (Cons x xs)
  from createSingleAccount_loop_request [of 0 validate net x t] Cons show ?case
    by (simp add: Let_def createSingleAccount_def)
qed

lemma accounts_loop_map:
  "accounts_loop domain pw N i accounts =
     accounts @ map (\<lambda>j. \<lparr>address = ''usmansreplitaccount'' @ String_num j @ ''@'' @ domain, password = pw\<rparr>)
                 [i..<Suc N]"
proof (induction domain pw N i accounts rule: accounts_loop.induct)
  case (1 domain pw N i accounts)
  show ?case
  proof (cases "i \<le> N")
    case True
    then have "[i..<Suc N] = i # [i + 1..<Suc N]"
      by (simp add: upt_conv_Cons del: upt_Suc)
    with 1 True show ?thesis
      by (subst accounts_loop.simps) (simp del: upt_Suc)
  next
    case False
    then show ?thesis by (subst accounts_loop.simps) simp
  qed
qed

lemma export_counts:
  "totalCreated (exportAccountsToFile now path accounts) + totalFailed (exportAccountsToFile now path accounts)
     = length accounts"
  by (simp add: exportAccountsToFile_def Let_def sum_length_filter_compl)

lemma main_iteration_tally:
  "successCount (fst bt) = length (filter (\<lambda>r. success r) (results (fst bt))) \<Longrightarrow>
   failCount (fst bt) = length (filter (\<lambda>r. \<not> success r) (results (fst bt))) \<Longrightarrow>
   successCount (fst (main_iteration net pace base domain pw count padSz i bt)) =
     length (filter (\<lambda>r. success r) (results (fst (main_iteration net pace base domain pw count padSz i bt)))) \<and>
   failCount (fst (main_iteration net pace base domain pw count padSz i bt)) =
     length (filter (\<lambda>r. \<not> success r) (results (fst (main_iteration net pace base domain pw count padSz i bt))))"
  by (simp add: main_iteration_def Let_def)

lemma main_loop_tally:
  "successCount (fst bt) = length (filter (\<lambda>r. success r) (results (fst bt))) \<Longrightarrow>
   failCount (fst bt) = length (filter (\<lambda>r. \<not> success r) (results (fst bt))) \<Longrightarrow>
   successCount (fst (main_loop net pace base domain pw count padSz i bt)) =
     length (filter (\<lambda>r. success r) (results (fst (main_loop net pace base domain pw count padSz i bt)))) \<and>
   failCount (fst (main_loop net pace base domain pw count padSz i bt)) =
     length (filter (\<lambda>r. \<not> success r) (results (fst (main_loop net pace base domain pw count padSz i bt))))"
proof (induction net pace base domain pw count padSz i bt rule: main_loop.induct)
  case (1 net pace base domain pw count padSz i bt)
  show ?case
  proof (cases "i \<le> count")
    case False
    with 1(2,3) show ?thesis
      by (simp add: main_loop.simps [of net pace base domain pw count padSz i bt])
  next
    case True
    from main_iteration_tally [OF 1(2,3)] 1(1) [OF True] True show ?thesis
      by (simp add: main_loop.simps [of net pace base domain pw count padSz i bt])
  qed
qed

lemma createMailTmAccount_success:
  "success (createMailTmAccount f inputData) \<longleftrightarrow>
     message (createMailTmAccount f inputData) \<in> {''Account created successfully'', ''Account already exists''}"
  by (simp add: createMailTmAccount_def Let_def split: promise.splits)

subsection \<open>The log of a retry loop\<close>

lemma rate_limited_cases:
  "rate_limited f \<Longrightarrow> \<exists>res body. f = Resolves res \<and> status res = 429 \<and> text_body res = Resolves body"
  by (auto simp: rate_limited_def split: promise.splits)

lemma rate_limited_try: "rate_limited f \<Longrightarrow> createAccount_try f addr pw R k = Again"
  by (auto dest!: rate_limited_cases simp: createAccount_try_def ok_def)

lemma rate_limited_tool:
  "rate_limited f \<Longrightarrow>
   \<not> success (createMailTmAccount f inputData) \<and>
   str_includes (message (createMailTmAccount f inputData)) ''429''"
  by (auto dest!: rate_limited_cases simp: createMailTmAccount_def ok_def String_num_small)

lemma schedule_shift:
  "concat (map f [0..<Suc m]) = f 0 @ concat (map (\<lambda>j. f (Suc j)) [0..<m])"
proof -
  have "[0..<Suc m] = 0 # map Suc [0..<m]"
    by (simp add: upt_conv_Cons map_Suc_upt del: upt_Suc)
  then show ?thesis by (simp add: comp_def del: upt_Suc)
qed

lemma createAccount_loop_grows: "prefix t (snd (createAccount_loop net addr pw R k d t))"
proof (induction net addr pw R k d t rule: createAccount_loop.induct)
  case (1 net addr pw R k d t)
  show ?case
  proof (cases "k \<le> R")
    case False
    then show ?thesis by (simp add: createAccount_loop.simps [of net addr pw R k d t])
  next
    case True
    show ?thesis
    proof (cases "createAccount_try (net (calls t)) addr pw R k")
      case (Return r)
      with True show ?thesis
        by (simp add: createAccount_loop.simps [of net addr pw R k d t] fetched_def)
    next
      case Again
      have "prefix t (sleep d (fetched t))" by (simp add: sleep_def fetched_def)
      from this 1 [OF True Again]
      have "prefix t (snd (createAccount_loop net addr pw R (k + 1) (d * 2) (sleep d (fetched t))))"
        by (rule prefix_order.trans)
      with True Again show ?thesis
        by (simp add: createAccount_loop.simps [of net addr pw R k d t])
    qed
  qed
qed

lemma createAccount_loop_retried:
  "(\<And>j. j < m \<Longrightarrow> createAccount_try (net (calls t + j)) addr pw R (k + j) = Again) \<Longrightarrow>
   k + m \<le> Suc R \<Longrightarrow>
   createAccount_loop net addr pw R k d t =
     createAccount_loop net addr pw R (k + m) (d * 2 ^ m)
       (t @ concat (map (\<lambda>j. [Fetched, Slept (d * 2 ^ j)]) [0..<m]))"
proof (induction m arbitrary: k d t)
  case 0
  show ?case by simp
next
  case (Suc m)
  let ?t = "sleep d (fetched t)"
  have t: "?t = t @ [Fetched, Slept d]" "calls ?t = Suc (calls t)"
    by (simp_all add: sleep_def fetched_def log_simps)
  from Suc.prems(1) [of 0] have first: "createAccount_try (net (calls t)) addr pw R k = Again" by simp
  from Suc.prems(2) have k: "k \<le> R" by simp
  have rest: "createAccount_try (net (calls ?t + j)) addr pw R (k + 1 + j) = Again" if "j < m" for j
    using Suc.prems(1) [of "Suc j"] that t(2) by simp
  from first k have "createAccount_loop net addr pw R k d t =
      createAccount_loop net addr pw R (k + 1) (d * 2) ?t"
    by (simp add: createAccount_loop.simps [of net addr pw R k d t])
  also have "\<dots> = createAccount_loop net addr pw R (k + 1 + m) (d * 2 * 2 ^ m)
       (?t @ concat (map (\<lambda>j. [Fetched, Slept (d * 2 * 2 ^ j)]) [0..<m]))"
    using Suc.prems(2) by (intro Suc.IH rest) simp_all
  also have "?t @ concat (map (\<lambda>j. [Fetched, Slept (d * 2 * 2 ^ j)]) [0..<m]) =
      t @ concat (map (\<lambda>j. [Fetched, Slept (d * 2 ^ j)]) [0..<Suc m])"
    unfolding t(1) schedule_shift [of "\<lambda>j. [Fetched, Slept (d * 2 ^ j)]" m]
    by (simp add: mult.assoc)
  finally show ?case by (simp add: mult.assoc)
qed

lemma createSingleAccount_loop_grows:
  "prefix t (snd (createSingleAccount_loop validate net inputData k t))"
proof (induction validate net inputData k t rule: createSingleAccount_loop.induct)
  case (1 validate net inputData k t)
  let ?t1 = "sleep (attempt_delay k) t"
  let ?called = "createMailTmAccount_execute validate net inputData ?t1"
  show ?case
  proof (cases "k \<le> maxRetries")
    case False
    then show ?thesis
      by (simp add: createSingleAccount_loop.simps [of validate net inputData k t])
  next
    case True
    have "prefix ?t1 (snd ?called)"
      using execute_cases [of validate inputData net ?t1] by (auto simp: fetched_def)
    moreover have "prefix t ?t1" by (simp add: sleep_def)
    ultimately have called: "prefix t (snd ?called)" by (rule prefix_order.trans [rotated])
    show ?thesis
    proof (cases "createSingleAccount_iteration (fst ?called) inputData k")
      case (Return r)
      with True called show ?thesis
        by (simp add: createSingleAccount_loop.simps [of validate net inputData k t])
    next
      case Again
      from called 1 [OF True refl Again]
      have "prefix t (snd (createSingleAccount_loop validate net inputData (k + 1) (snd ?called)))"
        by (rule prefix_order.trans)
      with True Again show ?thesis
        by (simp add: createSingleAccount_loop.simps [of validate net inputData k t])
    qed
  qed
qed

lemma createSingleAccount_loop_step:
  assumes "validate inputData = None" "k \<le> maxRetries"
  shows "createSingleAccount_loop validate net inputData k t =
     (case createSingleAccount_iteration (Output (createMailTmAccount (net (calls t)) inputData)) inputData k of
        Return r \<Rightarrow> (r, t @ [Slept (attempt_delay k), Fetched])
      | Again \<Rightarrow> createSingleAccount_loop validate net inputData (k + 1)
                   (t @ [Slept (attempt_delay k), Fetched]))"
  using assms
  by (simp add: createSingleAccount_loop.simps [of validate net inputData k t]
      createMailTmAccount_execute_def sleep_def fetched_def log_simps Let_def
      split: iteration.splits)

lemma createSingleAccount_loop_retried:
  "validate inputData = None \<Longrightarrow>
   (\<And>j. j < m \<Longrightarrow> \<not> success (createMailTmAccount (net (calls t + j)) inputData) \<and>
       str_includes (message (createMailTmAccount (net (calls t + j)) inputData)) ''429'') \<Longrightarrow>
   k + m \<le> maxRetries \<Longrightarrow>
   createSingleAccount_loop validate net inputData k t =
     createSingleAccount_loop validate net inputData (k + m)
       (t @ concat (map (\<lambda>j. [Slept (attempt_delay (k + j)), Fetched]) [0..<m]))"
proof (induction m arbitrary: k t)
  case 0
  show ?case by simp
next
  case (Suc m)
  let ?t = "t @ [Slept (attempt_delay k), Fetched]"
  have t: "calls ?t = Suc (calls t)" by (simp add: log_simps)
  from Suc.prems(3) have k: "k \<le> maxRetries" "k < maxRetries" by simp_all
  from Suc.prems(2) [of 0] k(2)
  have "createSingleAccount_iteration (Output (createMailTmAccount (net (calls t)) inputData)) inputData k = Again"
    by (simp add: createSingleAccount_iteration_def)
  with createSingleAccount_loop_step [where validate = validate and inputData = inputData
      and k = k and net = net and t = t, OF Suc.prems(1) k(1)]
  have "createSingleAccount_loop validate net inputData k t =
      createSingleAccount_loop validate net inputData (k + 1) ?t"
    by simp
  also have "\<dots> = createSingleAccount_loop validate net inputData (k + 1 + m)
       (?t @ concat (map (\<lambda>j. [Slept (attempt_delay (k + 1 + j)), Fetched]) [0..<m]))"
  proof (rule Suc.IH [OF Suc.prems(1)])
    fix j assume "j < m"
    with Suc.prems(2) [of "Suc j"] t
    show "\<not> success (createMailTmAccount (net (calls ?t + j)) inputData) \<and>
       str_includes (message (createMailTmAccount (net (calls ?t + j)) inputData)) ''429''"
      by simp
  next
    from Suc.prems(3) show "k + 1 + m \<le> maxRetries" by simp
  qed
  also have "?t @ concat (map (\<lambda>j. [Slept (attempt_delay (k + 1 + j)), Fetched]) [0..<m]) =
      t @ concat (map (\<lambda>j. [Slept (attempt_delay (k + j)), Fetched]) [0..<Suc m])"
    unfolding schedule_shift [of "\<lambda>j. [Slept (attempt_delay (k + j)), Fetched]" m] by simp
  finally show ?case by simp
qed

lemma calls_workflow_schedule: "calls (concat (map (\<lambda>j. [Slept (f j), Fetched]) xs)) = length xs"
  by (induction xs) (simp_all add: log_simps)

lemma calls_cli_schedule: "calls (concat (map (\<lambda>j. [Fetched, Slept (f j)]) xs)) = length xs"
  by (induction xs) (simp_all add: log_simps)

lemma createSingleAccount_after_rate_limits:
  assumes v: "validate inputData = None" and k: "k \<le> maxRetries"
    and limited: "\<And>j. j < k \<Longrightarrow> rate_limited (net (calls t + j))"
  shows "prefix (t @ concat (map (\<lambda>i. [Slept (attempt_delay i), Fetched]) [0..<Suc k]))
           (snd (createSingleAccount validate net inputData t))"
    and "success (createMailTmAccount (net (calls t + k)) inputData) \<Longrightarrow>
         createSingleAccount validate net inputData t =
           (createMailTmAccount (net (calls t + k)) inputData,
            t @ concat (map (\<lambda>i. [Slept (attempt_delay i), Fetched]) [0..<Suc k]))"
proof -
  let ?before = "t @ concat (map (\<lambda>i. [Slept (attempt_delay i), Fetched]) [0..<k])"
  let ?after = "t @ concat (map (\<lambda>i. [Slept (attempt_delay i), Fetched]) [0..<Suc k])"
  have after: "?after = ?before @ [Slept (attempt_delay k), Fetched]" by simp
  have c: "calls ?before = calls t + k"
    by (simp add: calls_append calls_workflow_schedule)
  have "createSingleAccount_loop validate net inputData 0 t =
      createSingleAccount_loop validate net inputData (0 + k)
        (t @ concat (map (\<lambda>j. [Slept (attempt_delay (0 + j)), Fetched]) [0..<k]))"
    using k by (intro createSingleAccount_loop_retried v rate_limited_tool limited) simp_all
  then have run: "createSingleAccount validate net inputData t =
      createSingleAccount_loop validate net inputData k ?before"
    by (simp add: createSingleAccount_def)
  note step = createSingleAccount_loop_step [where validate = validate and inputData = inputData
      and k = k and net = net and t = ?before, OF v k, unfolded c, folded after]
  show "prefix ?after (snd (createSingleAccount validate net inputData t))"
  proof (cases "createSingleAccount_iteration (Output (createMailTmAccount (net (calls t + k)) inputData)) inputData k")
    case (Return r)
    with step run show ?thesis by simp
  next
    case Again
    with step run createSingleAccount_loop_grows [of ?after validate net inputData "k + 1"]
    show ?thesis by simp
  qed
  show "createSingleAccount validate net inputData t =
           (createMailTmAccount (net (calls t + k)) inputData, ?after)"
    if "success (createMailTmAccount (net (calls t + k)) inputData)"
    using that step run by (simp add: createSingleAccount_iteration_def)
qed

lemma createAccount_after_rate_limits:
  assumes k: "k < retries"
    and limited: "\<And>j. j < k \<Longrightarrow> rate_limited (net (calls t + j))"
  shows "prefix (t @ concat (map (\<lambda>i. [Fetched, Slept (pace * 2 ^ i)]) [0..<k]) @ [Fetched])
           (snd (createAccount net pace addr pw retries t))"
    and "net (calls t + k) = Resolves res \<Longrightarrow> ok res \<Longrightarrow>
         createAccount net pace addr pw retries t =
           (\<lparr>address = addr, password = pw, success = True, message = ''Created''\<rparr>,
            t @ concat (map (\<lambda>i. [Fetched, Slept (pace * 2 ^ i)]) [0..<k]) @ [Fetched])"
proof -
  let ?before = "t @ concat (map (\<lambda>i. [Fetched, Slept (pace * 2 ^ i)]) [0..<k])"
  have c: "calls ?before = calls t + k"
    by (simp add: calls_append calls_cli_schedule)
  have "createAccount_loop net addr pw retries 1 pace t =
      createAccount_loop net addr pw retries (1 + k) (pace * 2 ^ k) ?before"
    using k by (intro createAccount_loop_retried rate_limited_try limited) simp_all
  then have run: "createAccount net pace addr pw retries t =
      createAccount_loop net addr pw retries (1 + k) (pace * 2 ^ k) ?before"
    by (simp add: createAccount_def)
  from k have le: "1 + k \<le> retries" by simp
  note unfold = createAccount_loop.simps [of net addr pw retries "1 + k" "pace * 2 ^ k" ?before, unfolded c]
  have "prefix (?before @ [Fetched]) (snd (createAccount net pace addr pw retries t))"
  proof (cases "createAccount_try (net (calls t + k)) addr pw retries (1 + k)")
    case (Return r)
    with le show ?thesis unfolding run unfold by (simp add: fetched_def)
  next
    case Again
    have "prefix (?before @ [Fetched]) (sleep (pace * 2 ^ k) (fetched ?before))"
      by (simp add: sleep_def fetched_def)
    from this createAccount_loop_grows
    have "prefix (?before @ [Fetched])
        (snd (createAccount_loop net addr pw retries (1 + k + 1) (pace * 2 ^ k * 2)
          (sleep (pace * 2 ^ k) (fetched ?before))))"
      by (rule prefix_order.trans)
    with le Again show ?thesis unfolding run unfold by simp
  qed
  then show "prefix (t @ concat (map (\<lambda>i. [Fetched, Slept (pace * 2 ^ i)]) [0..<k]) @ [Fetched])
           (snd (createAccount net pace addr pw retries t))"
    by simp
  show "createAccount net pace addr pw retries t =
           (\<lparr>address = addr, password = pw, success = True, message = ''Created''\<rparr>,
            t @ concat (map (\<lambda>i. [Fetched, Slept (pace * 2 ^ i)]) [0..<k]) @ [Fetched])"
    if "net (calls t + k) = Resolves res" "ok res"
    using that le unfolding run unfold by (simp add: createAccount_try_def fetched_def)
qed

subsection \<open>Two runs evaluated: every attempt answered 429\<close>

lemma createSingleAccount_all_429:
  "createSingleAccount (\<lambda>_. None) (\<lambda>n. Resolves \<lparr>status = 429, text_body = Resolves body, json_id = j\<rparr>)
     inputData [] =
     (\<lparr>address = address inputData, password = password inputData, success = False,
       message = ''Failed: 429 - '' @ body, accountId = ''''\<rparr>,
      [Slept 3000, Fetched, Slept 3000, Fetched, Slept 6000, Fetched, Slept 12000, Fetched,
       Slept 24000, Fetched, Slept 48000, Fetched, Slept 96000, Fetched, Slept 192000, Fetched])"
  by (simp add: createSingleAccount_def createSingleAccount_loop.simps
      createSingleAccount_iteration_def createMailTmAccount_execute_def createMailTmAccount_def
      maxRetries_def attempt_delay_def ok_def fetched_def sleep_def log_simps String_num_small)

lemma createAccount_all_429:
  "createAccount (\<lambda>n. Resolves \<lparr>status = 429, text_body = Resolves body, json_id = j\<rparr>)
     pace addr pw 7 [] =
     (\<lparr>address = addr, password = pw, success = False, message = ''Max retries reached''\<rparr>,
      concat (map (\<lambda>k. [Fetched, Slept (pace * 2 ^ k)]) [0..<7]))"
proof -
  have "[0..<7] = [0, 1, 2, 3, 4, 5, 6]"
    by (simp add: upt_conv_Cons)
  then show ?thesis
    by (simp add: createAccount_def createAccount_loop.simps createAccount_try_def
        ok_def fetched_def sleep_def log_simps)
qed

subsection \<open>A batch evaluated: ten requests, the fourth refused\<close>

text \<open>
  The fourth POST is answered 400 and every other one 201: the loop of \<open>main\<close> still returns
  ten results in order, counts nine and one, and has slept 3000 after every request but the
  last.
\<close>

lemma main_batch_mixed:
  "main_batch
     (\<lambda>n. if n = 3 then Resolves \<lparr>status = 400, text_body = Resolves ''bad request'', json_id = Rejects []\<rparr>
           else Resolves \<lparr>status = 201, text_body = Rejects [], json_id = Resolves None\<rparr>)
     3000 ''abc'' ''x.com'' ''secret'' 10 [] =
   (\<lparr>results =
       [\<lparr>address = ''abc01@x.com'', password = ''secret'', success = True, message = ''Created''\<rparr>,
        \<lparr>address = ''abc02@x.com'', password = ''secret'', success = True, message = ''Created''\<rparr>,
        \<lparr>address = ''abc03@x.com'', password = ''secret'', success = True, message = ''Created''\<rparr>,
        \<lparr>address = ''abc04@x.com'', password = ''secret'', success = False,
          message = ''HTTP 400: bad request''\<rparr>,
        \<lparr>address = ''abc05@x.com'', password = ''secret'', success = True, message = ''Created''\<rparr>,
        \<lparr>address = ''abc06@x.com'', password = ''secret'', success = True, message = ''Created''\<rparr>,
        \<lparr>address = ''abc07@x.com'', password = ''secret'', success = True, message = ''Created''\<rparr>,
        \<lparr>address = ''abc08@x.com'', password = ''secret'', success = True, message = ''Created''\<rparr>,
        \<lparr>address = ''abc09@x.com'', password = ''secret'', success = True, message = ''Created''\<rparr>,
        \<lparr>address = ''abc10@x.com'', password = ''secret'', success = True, message = ''Created''\<rparr>],
      successCount = 9, failCount = 1\<rparr>,
    [Fetched, Slept 3000, Fetched, Slept 3000, Fetched, Slept 3000, Fetched, Slept 3000,
     Fetched, Slept 3000, Fetched, Slept 3000, Fetched, Slept 3000, Fetched, Slept 3000,
     Fetched, Slept 3000, Fetched])"
  by (simp add: main_batch_def main_loop.simps main_iteration_def Let_def padSize_def
      pad_replicate String_num_def MAX_SAFE_INTEGER_def decimal_digits.simps digit_char_def
      createAccount_def createAccount_loop.simps createAccount_try_def ok_def fetched_def sleep_def
      log_simps)

subsection \<open>A run of the CLI evaluated: 429, 429, then created\<close>

lemma createAccount_429_429_created:
  "createAccount
     (\<lambda>n. if n < 2 then Resolves \<lparr>status = 429, text_body = Resolves body, json_id = j\<rparr>
           else Resolves \<lparr>status = 201, text_body = b, json_id = Resolves (Some account)\<rparr>)
     pace addr pw 7 [] =
     (\<lparr>address = addr, password = pw, success = True, message = ''Created''\<rparr>,
      [Fetched, Slept pace, Fetched, Slept (pace * 2), Fetched])"
  by (simp add: createAccount_def createAccount_loop.simps createAccount_try_def
      ok_def fetched_def sleep_def log_simps)

section \<open>The claims\<close>

text \<open>
  Claim C1. The batch run never aborts early. In the CLI, the loop of \<open>main\<close> on any \<open>count\<close>
  and any behaviour of the network returns exactly \<open>count\<close> results, the \<open>i\<close>-th for the
  \<open>i\<close>-th generated address and with the password given; \<open>successCount\<close> and \<open>failCount\<close>
  count the successful and the failed results and add up to \<open>count\<close>. In the workflow, the
  \<open>foreach\<close> over any request list returns one result per request, in the order of the
  requests, and the two totals of the export add up to the number of requests.
\<close>

theorem batch_never_aborts:
  "length (results (fst (main_batch net pace base domain pw count t))) = count \<and>
   map address (results (fst (main_batch net pace base domain pw count t))) =
     map (\<lambda>i. base @ pad i (padSize count) @ ''@'' @ domain) [1..<Suc count] \<and>
   map password (results (fst (main_batch net pace base domain pw count t))) = replicate count pw \<and>
   successCount (fst (main_batch net pace base domain pw count t)) =
     length (filter (\<lambda>r. success r) (results (fst (main_batch net pace base domain pw count t)))) \<and>
   failCount (fst (main_batch net pace base domain pw count t)) =
     length (filter (\<lambda>r. \<not> success r) (results (fst (main_batch net pace base domain pw count t)))) \<and>
   successCount (fst (main_batch net pace base domain pw count t)) +
     failCount (fst (main_batch net pace base domain pw count t)) = count \<and>
   length (fst (automationWorkflow_batch validate net now path requests t)) = length requests \<and>
   map address (fst (automationWorkflow_batch validate net now path requests t)) = map address requests \<and>
   map password (fst (automationWorkflow_batch validate net now path requests t)) = map password requests \<and>
   totalCreated (fst (snd (automationWorkflow_batch validate net now path requests t))) +
     totalFailed (fst (snd (automationWorkflow_batch validate net now path requests t))) = length requests"
proof -
  let ?b0 = "(\<lparr>results = [], successCount = 0, failCount = 0\<rparr>, t)"
  let ?rs = "results (fst (main_batch net pace base domain pw count t))"
  note cli = main_loop_results [of net pace base domain pw count "padSize count" 1 ?b0]
  have addr: "map address ?rs = map (\<lambda>i. base @ pad i (padSize count) @ ''@'' @ domain) [1..<Suc count]"
    using cli by (simp add: main_batch_def)
  have len: "length ?rs = count"
    using arg_cong [OF addr, of length] by simp
  have pw: "map password ?rs = replicate count pw"
    using cli by (simp add: main_batch_def)
  have sum: "successCount (fst (main_batch net pace base domain pw count t)) +
     failCount (fst (main_batch net pace base domain pw count t)) = count"
    using cli by (simp add: main_batch_def)
  have tally: "successCount (fst (main_batch net pace base domain pw count t)) =
       length (filter (\<lambda>r. success r) ?rs) \<and>
     failCount (fst (main_batch net pace base domain pw count t)) =
       length (filter (\<lambda>r. \<not> success r) ?rs)"
    unfolding main_batch_def by (rule main_loop_tally) simp_all
  let ?ws = "fst (automationWorkflow_batch validate net now path requests t)"
  have w: "map address ?ws = map address requests" "map password ?ws = map password requests"
    using foreach_requests [of validate net requests t]
    by (simp_all add: automationWorkflow_batch_def Let_def)
  have wlen: "length ?ws = length requests"
    using arg_cong [OF w(1), of length] by simp
  have wsum: "totalCreated (fst (snd (automationWorkflow_batch validate net now path requests t))) +
     totalFailed (fst (snd (automationWorkflow_batch validate net now path requests t))) = length requests"
    using export_counts [of now path ?ws] wlen by (simp add: automationWorkflow_batch_def Let_def)
  from len addr pw tally sum wlen w wsum show ?thesis by simp
qed

text \<open>
  Claim C2. With the budget of 7, a request whose every attempt is answered 429 should end,
  after 8 creation attempts, in a failure tagged as the exhausted budget. The code at that
  input: the workflow step makes 8 attempts and then returns the last attempt's own result,
  \<open>Failed: 429 - ...\<close>; its return tagged \<open>Max retries exceeded due to rate limiting\<close> is never
  taken, on any run. The CLI's \<open>createAccount\<close> returns \<open>Max retries reached\<close>, after 7
  attempts and 7 sleeps, the last sleep after the last attempt.
\<close>

theorem all_rate_limited:
  "createSingleAccount (\<lambda>_. None) (\<lambda>n. Resolves \<lparr>status = 429, text_body = Resolves body, json_id = j\<rparr>)
     inputData [] =
     (\<lparr>address = address inputData, password = password inputData, success = False,
       message = ''Failed: 429 - '' @ body, accountId = ''''\<rparr>,
      [Slept 3000, Fetched, Slept 3000, Fetched, Slept 6000, Fetched, Slept 12000, Fetched,
       Slept 24000, Fetched, Slept 48000, Fetched, Slept 96000, Fetched, Slept 192000, Fetched]) \<and>
   calls (snd (createSingleAccount (\<lambda>_. None)
     (\<lambda>n. Resolves \<lparr>status = 429, text_body = Resolves body, json_id = j\<rparr>) inputData [])) = 8 \<and>
   sleeps (snd (createSingleAccount (\<lambda>_. None)
     (\<lambda>n. Resolves \<lparr>status = 429, text_body = Resolves body, json_id = j\<rparr>) inputData [])) =
     [3000, 3000, 6000, 12000, 24000, 48000, 96000, 192000] \<and>
   message (fst (createSingleAccount validate net inputData t)) \<noteq>
     ''Max retries exceeded due to rate limiting'' \<and>
   createAccount (\<lambda>n. Resolves \<lparr>status = 429, text_body = Resolves body, json_id = j\<rparr>)
     pace addr pw 7 [] =
     (\<lparr>address = addr, password = pw, success = False, message = ''Max retries reached''\<rparr>,
      concat (map (\<lambda>k. [Fetched, Slept (pace * 2 ^ k)]) [0..<7])) \<and>
   calls (snd (createAccount (\<lambda>n. Resolves \<lparr>status = 429, text_body = Resolves body, json_id = j\<rparr>)
     pace addr pw 7 [])) = 7 \<and>
   sleeps (snd (createAccount (\<lambda>n. Resolves \<lparr>status = 429, text_body = Resolves body, json_id = j\<rparr>)
     pace addr pw 7 [])) = map (\<lambda>k. pace * 2 ^ k) [0..<7]"
proof -
  have dead: "message (fst (createSingleAccount validate net inputData t)) \<noteq>
     ''Max retries exceeded due to rate limiting''"
    using createSingleAccount_loop_request [of 0 validate net inputData t]
    by (simp add: createSingleAccount_def)
  have upt7: "[0..<7] = [0, 1, 2, 3, 4, 5, 6]"
    by (simp add: upt_conv_Cons)
  note workflow = createSingleAccount_all_429 [of body j inputData]
  note cli = createAccount_all_429 [of body j pace addr pw]
  have "calls (snd (createAccount (\<lambda>n. Resolves \<lparr>status = 429, text_body = Resolves body, json_id = j\<rparr>)
     pace addr pw 7 [])) = 7"
    "sleeps (snd (createAccount (\<lambda>n. Resolves \<lparr>status = 429, text_body = Resolves body, json_id = j\<rparr>)
     pace addr pw 7 [])) = map (\<lambda>k. pace * 2 ^ k) [0..<7]"
    unfolding cli upt7 by (simp_all add: log_simps)
  with workflow cli dead show ?thesis by (simp add: log_simps)
qed

text \<open>
  Claim C3. A 422 response whose body contains \<open>already used\<close> is a success, on every attempt:
  the tool classifies it as an existing account, one iteration of the CLI's loop returns
  \<open>Already exists\<close> whatever the attempt number and the budget, and both retry loops, at
  any attempt within the budget and with any delays behind them, return that success at once.
\<close>

theorem already_used_is_success:
  "status res = 422 \<Longrightarrow> text_body res = Resolves body \<Longrightarrow> str_includes body ''already used'' \<Longrightarrow>
   createMailTmAccount (Resolves res) inputData =
     \<lparr>address = address inputData, password = password inputData, success = True,
      message = ''Account already exists'', accountId = ''already-exists''\<rparr> \<and>
   createAccount_try (Resolves res) addr pw retries attempt =
     Return \<lparr>address = addr, password = pw, success = True, message = ''Already exists''\<rparr> \<and>
   (attempt \<le> retries \<and> net (calls t) = Resolves res \<longrightarrow>
      createAccount_loop net addr pw retries attempt delay t =
        (\<lparr>address = addr, password = pw, success = True, message = ''Already exists''\<rparr>, fetched t)) \<and>
   (attempt \<le> maxRetries \<and> validate inputData = None \<and> net (calls t) = Resolves res \<longrightarrow>
      createSingleAccount_loop validate net inputData attempt t =
        (\<lparr>address = address inputData, password = password inputData, success = True,
          message = ''Account already exists'', accountId = ''already-exists''\<rparr>,
         fetched (sleep (attempt_delay attempt) t)))"
proof -
  assume res: "status res = 422" "text_body res = Resolves body" "str_includes body ''already used''"
  have tool: "createMailTmAccount (Resolves res) inputData =
     \<lparr>address = address inputData, password = password inputData, success = True,
      message = ''Account already exists'', accountId = ''already-exists''\<rparr>"
    using res by (simp add: createMailTmAccount_def ok_def)
  have once: "createAccount_try (Resolves res) addr pw retries attempt =
     Return \<lparr>address = addr, password = pw, success = True, message = ''Already exists''\<rparr>"
    using res by (simp add: createAccount_try_def ok_def)
  have cli: "createAccount_loop net addr pw retries attempt delay t =
        (\<lparr>address = addr, password = pw, success = True, message = ''Already exists''\<rparr>, fetched t)"
    if "attempt \<le> retries" "net (calls t) = Resolves res"
    using that once by (simp add: createAccount_loop.simps [of net addr pw retries attempt delay t])
  have "calls (sleep (attempt_delay attempt) t) = calls t"
    by (rule calls_sleep)
  then have workflow: "createSingleAccount_loop validate net inputData attempt t =
        (\<lparr>address = address inputData, password = password inputData, success = True,
          message = ''Account already exists'', accountId = ''already-exists''\<rparr>,
         fetched (sleep (attempt_delay attempt) t))"
    if "attempt \<le> maxRetries" "validate inputData = None" "net (calls t) = Resolves res"
    using that tool
    by (simp add: createSingleAccount_loop.simps [of validate net inputData attempt t]
        createMailTmAccount_execute_def createSingleAccount_iteration_def)
  from tool once cli workflow show ?thesis by blast
qed

text \<open>
  The theorem for C3 at the fifth attempt of each loop, on the body mail.tm sends for a
  taken address.
\<close>

theorem already_used_is_success_witness:
  "status \<lparr>status = 422, text_body = Resolves ''address: This value is already used.'',
           json_id = Rejects ''''\<rparr> = 422 \<and>
   str_includes ''address: This value is already used.'' ''already used'' \<and>
   (5::nat) \<le> 7 \<and> (4::nat) \<le> maxRetries \<and>
   createAccount_loop
     (\<lambda>n. Resolves \<lparr>status = 422, text_body = Resolves ''address: This value is already used.'',
                     json_id = Rejects ''''\<rparr>)
     ''abc01@x.com'' ''secret'' 7 5 48000
     [Fetched, Slept 3000, Fetched, Slept 6000, Fetched, Slept 12000, Fetched, Slept 24000] =
     (\<lparr>address = ''abc01@x.com'', password = ''secret'', success = True, message = ''Already exists''\<rparr>,
      [Fetched, Slept 3000, Fetched, Slept 6000, Fetched, Slept 12000, Fetched, Slept 24000, Fetched]) \<and>
   createSingleAccount_loop (\<lambda>_. None)
     (\<lambda>n. Resolves \<lparr>status = 422, text_body = Resolves ''address: This value is already used.'',
                     json_id = Rejects ''''\<rparr>)
     \<lparr>address = ''abc01@x.com'', password = ''secret''\<rparr> 4
     [Slept 3000, Fetched, Slept 3000, Fetched, Slept 6000, Fetched, Slept 12000, Fetched] =
     (\<lparr>address = ''abc01@x.com'', password = ''secret'', success = True,
       message = ''Account already exists'', accountId = ''already-exists''\<rparr>,
      [Slept 3000, Fetched, Slept 3000, Fetched, Slept 6000, Fetched, Slept 12000, Fetched,
       Slept 24000, Fetched])"
proof -
  let ?res = "\<lparr>status = 422, text_body = Resolves ''address: This value is already used.'',
           json_id = Rejects ''''\<rparr>"
  have h: "status ?res = 422" "text_body ?res = Resolves ''address: This value is already used.''"
    "str_includes ''address: This value is already used.'' ''already used''"
    by simp_all
  from already_used_is_success [OF h, where inputData = "\<lparr>address = ''abc01@x.com'', password = ''secret''\<rparr>"
      and addr = "''abc01@x.com''" and pw = "''secret''" and retries = 7 and attempt = 5
      and net = "\<lambda>n. Resolves ?res" and delay = 48000 and validate = "\<lambda>_. None"
      and t = "[Fetched, Slept 3000, Fetched, Slept 6000, Fetched, Slept 12000, Fetched, Slept 24000]"]
    already_used_is_success [OF h, where inputData = "\<lparr>address = ''abc01@x.com'', password = ''secret''\<rparr>"
      and addr = "''abc01@x.com''" and pw = "''secret''" and retries = 7 and attempt = 4
      and net = "\<lambda>n. Resolves ?res" and delay = 48000 and validate = "\<lambda>_. None"
      and t = "[Slept 3000, Fetched, Slept 3000, Fetched, Slept 6000, Fetched, Slept 12000, Fetched]"]
  show ?thesis
    by (simp add: maxRetries_def fetched_def sleep_def attempt_delay_def)
qed

text \<open>
  Claim C4, as the code has it. In the workflow's \<open>createSingleAccount\<close>, whenever the first
  \<open>k\<close> POSTs of a request are rate-limited (\<open>k\<close> at most 7), the run begins: sleep 3000, POST,
  sleep 3000, POST, sleep 6000, POST, and so on to the POST number \<open>k + 1\<close>, which comes
  right after a sleep of \<open>3000 * 2^(k-1)\<close>; so the base delay is slept once before the first
  attempt and \<open>3000 * 2^(k-1)\<close> between the \<open>k\<close>-th rate-limited outcome and the next attempt.
  When that next attempt succeeds the run is exactly this sequence. In the CLI's
  \<open>createAccount\<close> the run begins with the POST: POST, sleep \<open>pace\<close>, POST, sleep \<open>2 * pace\<close>,
  and so on; nothing is slept before the first attempt, and \<open>pace * 2^(k-1)\<close> after the
  \<open>k\<close>-th rate-limited outcome.
\<close>

theorem retry_schedule:
  "(validate inputData = None \<and> k \<le> maxRetries \<and> (\<forall>j<k. rate_limited (net (calls t + j))) \<longrightarrow>
      prefix
        (t @ concat (map (\<lambda>i. [Slept (if i = 0 then 3000 else 3000 * 2 ^ (i - 1)), Fetched]) [0..<Suc k]))
        (snd (createSingleAccount validate net inputData t)) \<and>
      (success (createMailTmAccount (net (calls t + k)) inputData) \<longrightarrow>
         createSingleAccount validate net inputData t =
           (createMailTmAccount (net (calls t + k)) inputData,
            t @ concat (map (\<lambda>i. [Slept (if i = 0 then 3000 else 3000 * 2 ^ (i - 1)), Fetched])
                          [0..<Suc k])))) \<and>
   (k < retries \<and> (\<forall>j<k. rate_limited (net (calls t + j))) \<longrightarrow>
      prefix
        (t @ concat (map (\<lambda>i. [Fetched, Slept (pace * 2 ^ i)]) [0..<k]) @ [Fetched])
        (snd (createAccount net pace addr pw retries t)) \<and>
      (net (calls t + k) = Resolves res \<and> ok res \<longrightarrow>
         createAccount net pace addr pw retries t =
           (\<lparr>address = addr, password = pw, success = True, message = ''Created''\<rparr>,
            t @ concat (map (\<lambda>i. [Fetched, Slept (pace * 2 ^ i)]) [0..<k]) @ [Fetched])))"
proof -
  have delay: "(\<lambda>i. [Slept (if i = 0 then 3000 else 3000 * 2 ^ (i - 1)), Fetched]) =
      (\<lambda>i. [Slept (attempt_delay i), Fetched])"
    by (simp add: attempt_delay_def)
  show ?thesis
    unfolding delay
    using createSingleAccount_after_rate_limits [where validate = validate and inputData = inputData
        and k = k and net = net and t = t]
      createAccount_after_rate_limits(1) [where k = k and retries = retries and net = net and t = t
        and pace = pace and addr = addr and pw = pw]
      createAccount_after_rate_limits(2) [where k = k and retries = retries and net = net and t = t
        and pace = pace and addr = addr and pw = pw and res = res]
    by blast
qed

text \<open>
  The theorem for C4 on the outcomes rate-limited, rate-limited, created: the workflow's step
  sleeps 3000, 3000 and 6000, four base delays, each before one of its 3 attempts; the CLI's
  \<open>createAccount\<close> sleeps 3000 and 6000 between its 3 attempts.
\<close>

theorem retry_schedule_witness:
  "(2::nat) \<le> maxRetries \<and> (2::nat) < 7 \<and>
   rate_limited (Resolves \<lparr>status = 429, text_body = Resolves ''Too Many Requests'', json_id = Rejects []\<rparr>) \<and>
   ok \<lparr>status = 201, text_body = Rejects [], json_id = Resolves (Some ''id1'')\<rparr> \<and>
   createSingleAccount (\<lambda>_. None)
     (\<lambda>n. if n < 2 then Resolves \<lparr>status = 429, text_body = Resolves ''Too Many Requests'', json_id = Rejects []\<rparr>
           else Resolves \<lparr>status = 201, text_body = Rejects [], json_id = Resolves (Some ''id1'')\<rparr>)
     \<lparr>address = ''abc01@x.com'', password = ''secret''\<rparr> [] =
     (\<lparr>address = ''abc01@x.com'', password = ''secret'', success = True,
       message = ''Account created successfully'', accountId = ''id1''\<rparr>,
      [Slept 3000, Fetched, Slept 3000, Fetched, Slept 6000, Fetched]) \<and>
   sum_list (sleeps [Slept 3000, Fetched, Slept 3000, Fetched, Slept 6000, Fetched]) = 4 * 3000 \<and>
   calls [Slept 3000, Fetched, Slept 3000, Fetched, Slept 6000, Fetched] = 3 \<and>
   createAccount
     (\<lambda>n. if n < 2 then Resolves \<lparr>status = 429, text_body = Resolves ''Too Many Requests'', json_id = Rejects []\<rparr>
           else Resolves \<lparr>status = 201, text_body = Rejects [], json_id = Resolves (Some ''id1'')\<rparr>)
     3000 ''abc01@x.com'' ''secret'' 7 [] =
     (\<lparr>address = ''abc01@x.com'', password = ''secret'', success = True, message = ''Created''\<rparr>,
      [Fetched, Slept 3000, Fetched, Slept 6000, Fetched]) \<and>
   sum_list (sleeps [Fetched, Slept 3000, Fetched, Slept 6000, Fetched]) = 3 * 3000 \<and>
   calls [Fetched, Slept 3000, Fetched, Slept 6000, Fetched] = 3"
proof -
  let ?limited = "Resolves \<lparr>status = 429, text_body = Resolves ''Too Many Requests'', json_id = Rejects []\<rparr>"
  let ?created = "\<lparr>status = 201, text_body = Rejects [], json_id = Resolves (Some ''id1'')\<rparr>"
  let ?net = "\<lambda>n::nat. if n < 2 then ?limited else Resolves ?created"
  let ?request = "\<lparr>address = ''abc01@x.com'', password = ''secret''\<rparr>"
  have limited: "rate_limited ?limited" by (simp add: rate_limited_def)
  then have first_two: "\<forall>j<2. rate_limited (?net (calls [] + j))" by (simp add: log_simps)
  have budget: "(2::nat) \<le> maxRetries" "(2::nat) < 7" by (simp_all add: maxRetries_def)
  have third: "?net (calls [] + 2) = Resolves ?created" "ok ?created"
    by (simp_all add: ok_def log_simps)
  have made: "createMailTmAccount (?net (calls [] + 2)) ?request =
      \<lparr>address = ''abc01@x.com'', password = ''secret'', success = True,
       message = ''Account created successfully'', accountId = ''id1''\<rparr>"
    by (simp add: createMailTmAccount_def ok_def log_simps)
  have upt: "[0..<Suc 2] = [0, 1, 2]" "[0..<2] = [0, 1]"
    by (simp_all add: upt_conv_Cons)
  note schedule = retry_schedule [where validate = "\<lambda>_. None" and inputData = ?request and k = 2
      and t = "[]" and net = ?net and retries = 7 and pace = 3000 and addr = "''abc01@x.com''"
      and pw = "''secret''" and res = ?created]
  from schedule budget first_two made
  have workflow: "createSingleAccount (\<lambda>_. None) ?net ?request [] =
     (\<lparr>address = ''abc01@x.com'', password = ''secret'', success = True,
       message = ''Account created successfully'', accountId = ''id1''\<rparr>,
      [Slept 3000, Fetched, Slept 3000, Fetched, Slept 6000, Fetched])"
    unfolding upt by simp
  from schedule budget first_two third
  have cli: "createAccount ?net 3000 ''abc01@x.com'' ''secret'' 7 [] =
     (\<lparr>address = ''abc01@x.com'', password = ''secret'', success = True, message = ''Created''\<rparr>,
      [Fetched, Slept 3000, Fetched, Slept 6000, Fetched])"
    unfolding upt by simp
  from limited budget third(2) workflow cli show ?thesis
    by (simp add: log_simps)
qed

text \<open>
  Claim C4 as stated fails on the CLI: with the base delay 3000 and the outcomes
  rate-limited, rate-limited, created, \<open>createAccount\<close> starts with the POST and sleeps 3000
  and 6000, three base delays in all and not four.
\<close>

theorem createAccount_no_initial_wait:
  "snd (createAccount
     (\<lambda>n. if n < 2 then Resolves \<lparr>status = 429, text_body = Resolves ''Too Many Requests'', json_id = Rejects ''''\<rparr>
           else Resolves \<lparr>status = 201, text_body = Rejects '''', json_id = Resolves (Some ''id1'')\<rparr>)
     3000 ''abc01@x.com'' ''secret'' 7 []) = [Fetched, Slept 3000, Fetched, Slept 6000, Fetched] \<and>
   sleeps (snd (createAccount
     (\<lambda>n. if n < 2 then Resolves \<lparr>status = 429, text_body = Resolves ''Too Many Requests'', json_id = Rejects ''''\<rparr>
           else Resolves \<lparr>status = 201, text_body = Rejects '''', json_id = Resolves (Some ''id1'')\<rparr>)
     3000 ''abc01@x.com'' ''secret'' 7 [])) = [3000, 6000] \<and>
   sum_list (sleeps (snd (createAccount
     (\<lambda>n. if n < 2 then Resolves \<lparr>status = 429, text_body = Resolves ''Too Many Requests'', json_id = Rejects ''''\<rparr>
           else Resolves \<lparr>status = 201, text_body = Rejects '''', json_id = Resolves (Some ''id1'')\<rparr>)
     3000 ''abc01@x.com'' ''secret'' 7 []))) = 3 * 3000 \<and>
   sum_list (sleeps (snd (createAccount
     (\<lambda>n. if n < 2 then Resolves \<lparr>status = 429, text_body = Resolves ''Too Many Requests'', json_id = Rejects ''''\<rparr>
           else Resolves \<lparr>status = 201, text_body = Rejects '''', json_id = Resolves (Some ''id1'')\<rparr>)
     3000 ''abc01@x.com'' ''secret'' 7 []))) \<noteq> 4 * 3000"
  by (simp add: createAccount_429_429_created log_simps)

text \<open>
  Claim C5, as the code has it. In the CLI's \<open>createAccount\<close>, with attempts remaining, a
  network exception is retried exactly as a rate-limited outcome is, whether the fetch
  throws or the read of the body of an answer that is not 2xx throws: the loop sleeps the
  current delay, doubles it and goes to the next attempt, under the same budget. A 5xx answer
  whose body is read is not retried by the CLI: it is returned as a failure at once. The
  workflow's \<open>createSingleAccount\<close> goes by the message of the tool's failure alone: it
  returns the failure at once unless the message contains \<open>429\<close> and attempts remain, and
  then it retries it as it does a rate-limited outcome. The tool's message is \<open>Error: \<close> and
  the error's message for a fetch or a body read that throws, and \<open>Failed: \<close>, the status,
  \<open> - \<close> and the body for a 5xx answer.
\<close>

theorem exception_retried_like_429:
  "(attempt < retries \<and> net (calls t) = Rejects m \<longrightarrow>
      createAccount_loop net addr pw retries attempt delay t =
        createAccount_loop net addr pw retries (attempt + 1) (delay * 2) (sleep delay (fetched t))) \<and>
   (attempt < retries \<and> net (calls t) = Resolves res \<and> \<not> ok res \<and> text_body res = Rejects m \<longrightarrow>
      createAccount_loop net addr pw retries attempt delay t =
        createAccount_loop net addr pw retries (attempt + 1) (delay * 2) (sleep delay (fetched t))) \<and>
   (attempt < retries \<and> rate_limited (net (calls t)) \<longrightarrow>
      createAccount_loop net addr pw retries attempt delay t =
        createAccount_loop net addr pw retries (attempt + 1) (delay * 2) (sleep delay (fetched t))) \<and>
   (attempt \<le> retries \<and> net (calls t) = Resolves res \<and> 500 \<le> status res \<and> status res \<le> 599 \<and>
      text_body res = Resolves body \<longrightarrow>
      createAccount_loop net addr pw retries attempt delay t =
        (\<lparr>address = addr, password = pw, success = False,
          message = ''HTTP '' @ String_num (status res) @ '': '' @ body\<rparr>, fetched t)) \<and>
   (attempt \<le> maxRetries \<and> validate inputData = None \<and>
      \<not> success (createMailTmAccount (net (calls t)) inputData) \<and>
      \<not> (str_includes (message (createMailTmAccount (net (calls t)) inputData)) ''429'' \<and>
         attempt < maxRetries) \<longrightarrow>
      createSingleAccount_loop validate net inputData attempt t =
        (createMailTmAccount (net (calls t)) inputData, fetched (sleep (attempt_delay attempt) t))) \<and>
   (attempt < maxRetries \<and> validate inputData = None \<and>
      \<not> success (createMailTmAccount (net (calls t)) inputData) \<and>
      str_includes (message (createMailTmAccount (net (calls t)) inputData)) ''429'' \<longrightarrow>
      createSingleAccount_loop validate net inputData attempt t =
        createSingleAccount_loop validate net inputData (attempt + 1)
          (fetched (sleep (attempt_delay attempt) t))) \<and>
   createMailTmAccount (Rejects m) inputData =
     \<lparr>address = address inputData, password = password inputData, success = False,
      message = ''Error: '' @ m, accountId = []\<rparr> \<and>
   (\<not> ok res \<and> text_body res = Rejects m \<longrightarrow>
      createMailTmAccount (Resolves res) inputData =
        \<lparr>address = address inputData, password = password inputData, success = False,
         message = ''Error: '' @ m, accountId = []\<rparr>) \<and>
   (500 \<le> status res \<and> status res \<le> 599 \<and> text_body res = Resolves body \<longrightarrow>
      createMailTmAccount (Resolves res) inputData =
        \<lparr>address = address inputData, password = password inputData, success = False,
         message = ''Failed: '' @ String_num (status res) @ '' - '' @ body, accountId = []\<rparr>)"
proof -
  let ?next = "createAccount_loop net addr pw retries (attempt + 1) (delay * 2) (sleep delay (fetched t))"
  let ?made = "createMailTmAccount (net (calls t)) inputData"
  note cli = createAccount_loop.simps [of net addr pw retries attempt delay t]
  have thrown: "createAccount_loop net addr pw retries attempt delay t = ?next"
    if "attempt < retries" "net (calls t) = Rejects m"
    using that by (simp add: cli createAccount_try_def)
  have unread: "createAccount_loop net addr pw retries attempt delay t = ?next"
    if "attempt < retries" "net (calls t) = Resolves res" "\<not> ok res" "text_body res = Rejects m"
    using that by (simp add: cli createAccount_try_def)
  have limited: "createAccount_loop net addr pw retries attempt delay t = ?next"
    if "attempt < retries" "rate_limited (net (calls t))"
    using that rate_limited_try [of "net (calls t)" addr pw retries attempt] by (simp add: cli)
  have down: "createAccount_loop net addr pw retries attempt delay t =
        (\<lparr>address = addr, password = pw, success = False,
          message = ''HTTP '' @ String_num (status res) @ '': '' @ body\<rparr>, fetched t)"
    if "attempt \<le> retries" "net (calls t) = Resolves res" "500 \<le> status res" "status res \<le> 599"
      "text_body res = Resolves body"
    using that by (simp add: cli createAccount_try_def ok_def)
  note workflow = createSingleAccount_loop.simps [of validate net inputData attempt t]
  have c: "calls (sleep (attempt_delay attempt) t) = calls t" by (rule calls_sleep)
  have terminal: "createSingleAccount_loop validate net inputData attempt t =
        (?made, fetched (sleep (attempt_delay attempt) t))"
    if "attempt \<le> maxRetries" "validate inputData = None" "\<not> success ?made"
      "\<not> (str_includes (message ?made) ''429'' \<and> attempt < maxRetries)"
  proof -
    from that(3,4) have "createSingleAccount_iteration (Output ?made) inputData attempt = Return ?made"
      by (auto simp: createSingleAccount_iteration_def)
    with that(1,2) show ?thesis
      by (simp add: workflow createMailTmAccount_execute_def c)
  qed
  have retried: "createSingleAccount_loop validate net inputData attempt t =
        createSingleAccount_loop validate net inputData (attempt + 1)
          (fetched (sleep (attempt_delay attempt) t))"
    if "attempt < maxRetries" "validate inputData = None" "\<not> success ?made"
      "str_includes (message ?made) ''429''"
  proof -
    from that(1,3,4) have "createSingleAccount_iteration (Output ?made) inputData attempt = Again"
      by (simp add: createSingleAccount_iteration_def)
    with that(1,2) show ?thesis
      by (simp add: workflow createMailTmAccount_execute_def c)
  qed
  have tool_thrown: "createMailTmAccount (Rejects m) inputData =
     \<lparr>address = address inputData, password = password inputData, success = False,
      message = ''Error: '' @ m, accountId = []\<rparr>"
    by (simp add: createMailTmAccount_def)
  have tool_unread: "createMailTmAccount (Resolves res) inputData =
        \<lparr>address = address inputData, password = password inputData, success = False,
         message = ''Error: '' @ m, accountId = []\<rparr>"
    if "\<not> ok res" "text_body res = Rejects m"
    using that by (simp add: createMailTmAccount_def)
  have tool_down: "createMailTmAccount (Resolves res) inputData =
        \<lparr>address = address inputData, password = password inputData, success = False,
         message = ''Failed: '' @ String_num (status res) @ '' - '' @ body, accountId = []\<rparr>"
    if "500 \<le> status res" "status res \<le> 599" "text_body res = Resolves body"
    using that by (simp add: createMailTmAccount_def ok_def)
  from thrown unread limited down terminal retried tool_thrown tool_unread tool_down
  show ?thesis by blast
qed

text \<open>
  Claim C5 as stated fails: with seven attempts left, a 503 ends the CLI's and the workflow's
  loop after a single attempt, and a fetch that throws ends the workflow's loop after a
  single attempt.
\<close>

theorem transient_not_retried:
  "createAccount
     (\<lambda>n. Resolves \<lparr>status = 503, text_body = Resolves ''Service Unavailable'', json_id = Rejects []\<rparr>)
     3000 ''abc01@x.com'' ''secret'' 7 [] =
     (\<lparr>address = ''abc01@x.com'', password = ''secret'', success = False,
       message = ''HTTP 503: Service Unavailable''\<rparr>,
      [Fetched]) \<and>
   createSingleAccount (\<lambda>_. None)
     (\<lambda>n. Resolves \<lparr>status = 503, text_body = Resolves ''Service Unavailable'', json_id = Rejects []\<rparr>)
     \<lparr>address = ''abc01@x.com'', password = ''secret''\<rparr> [] =
     (\<lparr>address = ''abc01@x.com'', password = ''secret'', success = False,
       message = ''Failed: 503 - Service Unavailable'', accountId = []\<rparr>,
      [Slept 3000, Fetched]) \<and>
   createSingleAccount (\<lambda>_. None) (\<lambda>n. Rejects ''fetch failed'')
     \<lparr>address = ''abc01@x.com'', password = ''secret''\<rparr> [] =
     (\<lparr>address = ''abc01@x.com'', password = ''secret'', success = False,
       message = ''Error: fetch failed'', accountId = []\<rparr>,
      [Slept 3000, Fetched])"
  by (simp add: createAccount_def createAccount_loop.simps createAccount_try_def
      createSingleAccount_def createSingleAccount_loop.simps
      createSingleAccount_iteration_def createMailTmAccount_execute_def createMailTmAccount_def
      maxRetries_def attempt_delay_def ok_def fetched_def sleep_def log_simps String_num_small)

text \<open>
  The theorem for C5 at concrete runs. In the CLI a fetch that throws, a 503 whose body
  cannot be read and a 429, each followed by a created account, cost the same: POST, sleep
  3000, POST; a 503 whose body is read ends the loop after one POST. In the workflow a 503, a
  503 whose body cannot be read and a fetch that throws end the loop after one POST; a 503
  and a thrown error that mention 429 are retried.
\<close>

theorem exception_retried_like_429_witness:
  "(1::nat) < 7 \<and> (0::nat) < maxRetries \<and>
   rate_limited (Resolves \<lparr>status = 429, text_body = Resolves ''Too Many Requests'', json_id = Rejects []\<rparr>) \<and>
   \<not> ok \<lparr>status = 503, text_body = Rejects ''terminated'', json_id = Rejects []\<rparr> \<and>
   (500::nat) \<le> 503 \<and> (503::nat) \<le> 599 \<and>
   \<not> str_includes ''Failed: 503 - Service Unavailable'' ''429'' \<and>
   \<not> str_includes ''Error: fetch failed'' ''429'' \<and>
   \<not> str_includes ''Error: terminated'' ''429'' \<and>
   str_includes ''Failed: 503 - upstream answered 429'' ''429'' \<and>
   str_includes ''Error: proxy answered 429'' ''429'' \<and>
   createAccount_loop
     (\<lambda>n. if n = 0 then Rejects ''fetch failed''
           else Resolves \<lparr>status = 201, text_body = Rejects [], json_id = Resolves (Some ''id1'')\<rparr>)
     ''abc01@x.com'' ''secret'' 7 1 3000 [] =
     (\<lparr>address = ''abc01@x.com'', password = ''secret'', success = True, message = ''Created''\<rparr>,
      [Fetched, Slept 3000, Fetched]) \<and>
   createAccount_loop
     (\<lambda>n. if n = 0 then Resolves \<lparr>status = 503, text_body = Rejects ''terminated'', json_id = Rejects []\<rparr>
           else Resolves \<lparr>status = 201, text_body = Rejects [], json_id = Resolves (Some ''id1'')\<rparr>)
     ''abc01@x.com'' ''secret'' 7 1 3000 [] =
     (\<lparr>address = ''abc01@x.com'', password = ''secret'', success = True, message = ''Created''\<rparr>,
      [Fetched, Slept 3000, Fetched]) \<and>
   createAccount_loop
     (\<lambda>n. if n = 0 then Resolves \<lparr>status = 429, text_body = Resolves ''Too Many Requests'', json_id = Rejects []\<rparr>
           else Resolves \<lparr>status = 201, text_body = Rejects [], json_id = Resolves (Some ''id1'')\<rparr>)
     ''abc01@x.com'' ''secret'' 7 1 3000 [] =
     (\<lparr>address = ''abc01@x.com'', password = ''secret'', success = True, message = ''Created''\<rparr>,
      [Fetched, Slept 3000, Fetched]) \<and>
   createAccount_loop
     (\<lambda>n. Resolves \<lparr>status = 503, text_body = Resolves ''Service Unavailable'', json_id = Rejects []\<rparr>)
     ''abc01@x.com'' ''secret'' 7 1 3000 [] =
     (\<lparr>address = ''abc01@x.com'', password = ''secret'', success = False,
       message = ''HTTP 503: Service Unavailable''\<rparr>,
      [Fetched]) \<and>
   createSingleAccount_loop (\<lambda>_. None)
     (\<lambda>n. Resolves \<lparr>status = 503, text_body = Resolves ''Service Unavailable'', json_id = Rejects []\<rparr>)
     \<lparr>address = ''abc01@x.com'', password = ''secret''\<rparr> 0 [] =
     (\<lparr>address = ''abc01@x.com'', password = ''secret'', success = False,
       message = ''Failed: 503 - Service Unavailable'', accountId = []\<rparr>,
      [Slept 3000, Fetched]) \<and>
   createSingleAccount_loop (\<lambda>_. None)
     (\<lambda>n. Resolves \<lparr>status = 503, text_body = Rejects ''terminated'', json_id = Rejects []\<rparr>)
     \<lparr>address = ''abc01@x.com'', password = ''secret''\<rparr> 0 [] =
     (\<lparr>address = ''abc01@x.com'', password = ''secret'', success = False,
       message = ''Error: terminated'', accountId = []\<rparr>,
      [Slept 3000, Fetched]) \<and>
   createSingleAccount_loop (\<lambda>_. None) (\<lambda>n. Rejects ''fetch failed'')
     \<lparr>address = ''abc01@x.com'', password = ''secret''\<rparr> 0 [] =
     (\<lparr>address = ''abc01@x.com'', password = ''secret'', success = False,
       message = ''Error: fetch failed'', accountId = []\<rparr>,
      [Slept 3000, Fetched]) \<and>
   createSingleAccount_loop (\<lambda>_. None)
     (\<lambda>n. if n = 0 then Resolves \<lparr>status = 503, text_body = Resolves ''upstream answered 429'', json_id = Rejects []\<rparr>
           else Resolves \<lparr>status = 201, text_body = Rejects [], json_id = Resolves (Some ''id1'')\<rparr>)
     \<lparr>address = ''abc01@x.com'', password = ''secret''\<rparr> 0 [] =
     (\<lparr>address = ''abc01@x.com'', password = ''secret'', success = True,
       message = ''Account created successfully'', accountId = ''id1''\<rparr>,
      [Slept 3000, Fetched, Slept 3000, Fetched]) \<and>
   createSingleAccount_loop (\<lambda>_. None)
     (\<lambda>n. if n = 0 then Rejects ''proxy answered 429''
           else Resolves \<lparr>status = 201, text_body = Rejects [], json_id = Resolves (Some ''id1'')\<rparr>)
     \<lparr>address = ''abc01@x.com'', password = ''secret''\<rparr> 0 [] =
     (\<lparr>address = ''abc01@x.com'', password = ''secret'', success = True,
       message = ''Account created successfully'', accountId = ''id1''\<rparr>,
      [Slept 3000, Fetched, Slept 3000, Fetched])"
proof -
  let ?created = "Resolves \<lparr>status = 201, text_body = Rejects [], json_id = Resolves (Some ''id1'')\<rparr>"
  let ?limited = "Resolves \<lparr>status = 429, text_body = Resolves ''Too Many Requests'', json_id = Rejects []\<rparr>"
  let ?down = "\<lparr>status = 503, text_body = Resolves ''Service Unavailable'', json_id = Rejects []\<rparr>"
  let ?unread = "\<lparr>status = 503, text_body = Rejects ''terminated'', json_id = Rejects []\<rparr>"
  let ?mentions = "\<lparr>status = 503, text_body = Resolves ''upstream answered 429'', json_id = Rejects []\<rparr>"
  let ?request = "\<lparr>address = ''abc01@x.com'', password = ''secret''\<rparr>"
  note evaluate = createAccount_loop.simps createAccount_try_def createSingleAccount_loop.simps
    createSingleAccount_iteration_def createMailTmAccount_execute_def createMailTmAccount_def
    maxRetries_def attempt_delay_def ok_def fetched_def sleep_def log_simps String_num_small
    rate_limited_def
  have facts: "(1::nat) < 7" "(0::nat) < maxRetries" "rate_limited ?limited" "\<not> ok ?unread"
    "\<not> str_includes ''Failed: 503 - Service Unavailable'' ''429''"
    "\<not> str_includes ''Error: fetch failed'' ''429''"
    "\<not> str_includes ''Error: terminated'' ''429''"
    "str_includes ''Failed: 503 - upstream answered 429'' ''429''"
    "str_includes ''Error: proxy answered 429'' ''429''"
    by (simp_all add: maxRetries_def rate_limited_def ok_def)
  have a: "createAccount_loop (\<lambda>n. if n = 0 then Rejects ''fetch failed'' else ?created)
     ''abc01@x.com'' ''secret'' 7 1 3000 [] =
     (\<lparr>address = ''abc01@x.com'', password = ''secret'', success = True, message = ''Created''\<rparr>,
      [Fetched, Slept 3000, Fetched])"
    using exception_retried_like_429 [where attempt = 1 and retries = 7 and t = "[]"
        and net = "\<lambda>n. if n = 0 then Rejects ''fetch failed'' else ?created"
        and m = "''fetch failed''" and addr = "''abc01@x.com''" and pw = "''secret''" and delay = 3000]
    by (simp add: evaluate)
  have b: "createAccount_loop (\<lambda>n. if n = 0 then Resolves ?unread else ?created)
     ''abc01@x.com'' ''secret'' 7 1 3000 [] =
     (\<lparr>address = ''abc01@x.com'', password = ''secret'', success = True, message = ''Created''\<rparr>,
      [Fetched, Slept 3000, Fetched])"
    using exception_retried_like_429 [where attempt = 1 and retries = 7 and t = "[]"
        and net = "\<lambda>n. if n = 0 then Resolves ?unread else ?created" and res = ?unread
        and m = "''terminated''" and addr = "''abc01@x.com''" and pw = "''secret''" and delay = 3000]
    by (simp add: evaluate)
  have c: "createAccount_loop (\<lambda>n. if n = 0 then ?limited else ?created)
     ''abc01@x.com'' ''secret'' 7 1 3000 [] =
     (\<lparr>address = ''abc01@x.com'', password = ''secret'', success = True, message = ''Created''\<rparr>,
      [Fetched, Slept 3000, Fetched])"
    using exception_retried_like_429 [where attempt = 1 and retries = 7 and t = "[]"
        and net = "\<lambda>n. if n = 0 then ?limited else ?created"
        and addr = "''abc01@x.com''" and pw = "''secret''" and delay = 3000]
    by (simp add: evaluate)
  have d: "createAccount_loop (\<lambda>n. Resolves ?down) ''abc01@x.com'' ''secret'' 7 1 3000 [] =
     (\<lparr>address = ''abc01@x.com'', password = ''secret'', success = False,
       message = ''HTTP 503: Service Unavailable''\<rparr>, [Fetched])"
    using exception_retried_like_429 [where attempt = 1 and retries = 7 and t = "[]"
        and net = "\<lambda>n. Resolves ?down" and res = ?down and body = "''Service Unavailable''"
        and addr = "''abc01@x.com''" and pw = "''secret''" and delay = 3000]
    by (simp add: evaluate)
  have e: "createSingleAccount_loop (\<lambda>_. None) (\<lambda>n. Resolves ?down) ?request 0 [] =
     (\<lparr>address = ''abc01@x.com'', password = ''secret'', success = False,
       message = ''Failed: 503 - Service Unavailable'', accountId = []\<rparr>, [Slept 3000, Fetched])"
    using exception_retried_like_429 [where attempt = 0 and t = "[]" and validate = "\<lambda>_. None"
        and net = "\<lambda>n. Resolves ?down" and res = ?down and body = "''Service Unavailable''"
        and inputData = ?request]
    by (simp add: evaluate)
  have f: "createSingleAccount_loop (\<lambda>_. None) (\<lambda>n. Resolves ?unread) ?request 0 [] =
     (\<lparr>address = ''abc01@x.com'', password = ''secret'', success = False,
       message = ''Error: terminated'', accountId = []\<rparr>, [Slept 3000, Fetched])"
    using exception_retried_like_429 [where attempt = 0 and t = "[]" and validate = "\<lambda>_. None"
        and net = "\<lambda>n. Resolves ?unread" and res = ?unread and m = "''terminated''"
        and inputData = ?request]
    by (simp add: evaluate)
  have g: "createSingleAccount_loop (\<lambda>_. None) (\<lambda>n. Rejects ''fetch failed'') ?request 0 [] =
     (\<lparr>address = ''abc01@x.com'', password = ''secret'', success = False,
       message = ''Error: fetch failed'', accountId = []\<rparr>, [Slept 3000, Fetched])"
    using exception_retried_like_429 [where attempt = 0 and t = "[]" and validate = "\<lambda>_. None"
        and net = "\<lambda>n. Rejects ''fetch failed''" and m = "''fetch failed''" and inputData = ?request]
    by (simp add: evaluate)
  have h: "createSingleAccount_loop (\<lambda>_. None) (\<lambda>n. if n = 0 then Resolves ?mentions else ?created)
     ?request 0 [] =
     (\<lparr>address = ''abc01@x.com'', password = ''secret'', success = True,
       message = ''Account created successfully'', accountId = ''id1''\<rparr>,
      [Slept 3000, Fetched, Slept 3000, Fetched])"
    using exception_retried_like_429 [where attempt = 0 and t = "[]" and validate = "\<lambda>_. None"
        and net = "\<lambda>n. if n = 0 then Resolves ?mentions else ?created" and res = ?mentions
        and body = "''upstream answered 429''" and inputData = ?request]
    by (simp add: evaluate)
  have i: "createSingleAccount_loop (\<lambda>_. None)
     (\<lambda>n. if n = 0 then Rejects ''proxy answered 429'' else ?created) ?request 0 [] =
     (\<lparr>address = ''abc01@x.com'', password = ''secret'', success = True,
       message = ''Account created successfully'', accountId = ''id1''\<rparr>,
      [Slept 3000, Fetched, Slept 3000, Fetched])"
    using exception_retried_like_429 [where attempt = 0 and t = "[]" and validate = "\<lambda>_. None"
        and net = "\<lambda>n. if n = 0 then Rejects ''proxy answered 429'' else ?created"
        and m = "''proxy answered 429''" and inputData = ?request]
    by (simp add: evaluate)
  from facts a b c d e f g h i show ?thesis by simp
qed

text \<open>
  Claim C6, as the code has it. In the CLI, for every \<open>count\<close> up to \<open>Number.MAX_SAFE_INTEGER\<close>
  (\<open>2^53 - 1\<close>, the counts on which the script's numbers are exact), the loop of \<open>main\<close>
  generates exactly the addresses \<open>base\<close> followed by the index \<open>1, ..., count\<close>, \<open>@\<close> and the
  domain, and every index is written in decimal digits, zero-padded on the left to the one
  width \<open>max(2, digitCount(count))\<close>. The workflow's \<open>prepareAccountList\<close> does not pad: on
  the first domain returned it generates the fixed 100 addresses \<open>usmansreplitaccount1\<close> to
  \<open>usmansreplitaccount100\<close>, the index in plain decimal.
\<close>

theorem generator_padding:
  "(count \<le> MAX_SAFE_INTEGER \<longrightarrow>
      map address (results (fst (main_batch net pace base domain pw count t))) =
        map (\<lambda>i. base @ pad i (max 2 (length (decimal_digits count))) @ ''@'' @ domain) [1..<Suc count] \<and>
      (\<forall>i\<in>{1..count}.
         length (pad i (max 2 (length (decimal_digits count)))) = max 2 (length (decimal_digits count)) \<and>
         pad i (max 2 (length (decimal_digits count))) =
           replicate (max 2 (length (decimal_digits count)) - length (decimal_digits i)) CHR ''0'' @
           decimal_digits i \<and>
         list_all is_digit (pad i (max 2 (length (decimal_digits count)))) \<and>
         decimal_value (pad i (max 2 (length (decimal_digits count)))) = i)) \<and>
   prepareAccountList (Resolves (DomainsOutput (domain # others))) =
     Resolves (map (\<lambda>i. \<lparr>address = ''usmansreplitaccount'' @ decimal_digits i @ ''@'' @ domain,
                         password = ''Usman@relplit123456''\<rparr>) [1..<Suc 100])"
proof (intro conjI impI ballI)
  assume safe: "count \<le> MAX_SAFE_INTEGER"
  then have width: "padSize count = max 2 (length (decimal_digits count))"
    by (simp add: padSize_max String_num_safe)
  show "map address (results (fst (main_batch net pace base domain pw count t))) =
     map (\<lambda>i. base @ pad i (max 2 (length (decimal_digits count))) @ ''@'' @ domain) [1..<Suc count]"
    using main_loop_results [of net pace base domain pw count "padSize count" 1
        "(\<lparr>results = [], successCount = 0, failCount = 0\<rparr>, t)"]
    by (simp add: main_batch_def width)
  fix i assume "i \<in> {1..count}"
  then have i: "i \<le> count" by simp
  with safe have safe_i: "i \<le> MAX_SAFE_INTEGER" by simp
  from length_pad_uniform [OF i safe]
  show "length (pad i (max 2 (length (decimal_digits count)))) = max 2 (length (decimal_digits count))"
    by (simp add: width)
  show "pad i (max 2 (length (decimal_digits count))) =
        replicate (max 2 (length (decimal_digits count)) - length (decimal_digits i)) CHR ''0'' @
        decimal_digits i"
    by (simp add: pad_replicate String_num_safe [OF safe_i])
  show "list_all is_digit (pad i (max 2 (length (decimal_digits count))))"
    using safe_i by (rule digits_pad)
  show "decimal_value (pad i (max 2 (length (decimal_digits count)))) = i"
    using safe_i by (rule decimal_value_pad)
next
  have "String_num i = decimal_digits i" if "i \<in> set [1..<Suc 100]" for i
    using that by (intro String_num_safe) (simp add: MAX_SAFE_INTEGER_def)
  then have "map (\<lambda>i. \<lparr>address = ''usmansreplitaccount'' @ String_num i @ ''@'' @ domain,
                        password = ''Usman@relplit123456''\<rparr>) [1..<Suc 100] =
      map (\<lambda>i. \<lparr>address = ''usmansreplitaccount'' @ decimal_digits i @ ''@'' @ domain,
                 password = ''Usman@relplit123456''\<rparr>) [1..<Suc 100]"
    by (intro map_cong refl) simp
  then show "prepareAccountList (Resolves (DomainsOutput (domain # others))) =
     Resolves (map (\<lambda>i. \<lparr>address = ''usmansreplitaccount'' @ decimal_digits i @ ''@'' @ domain,
                         password = ''Usman@relplit123456''\<rparr>) [1..<Suc 100])"
    by (simp add: prepareAccountList_def accounts_loop_map del: upt_Suc)
qed

text \<open>
  The theorem for C6 at \<open>count = 5\<close> (indexes 01 to 05) and the padded ends for \<open>count = 100\<close>.
\<close>

theorem generator_padding_witness:
  "(5::nat) \<le> MAX_SAFE_INTEGER \<and> (3::nat) \<in> {1..5} \<and>
   length (pad 3 (max 2 (length (decimal_digits 5)))) = 2 \<and>
   decimal_value (pad 3 (max 2 (length (decimal_digits 5)))) = 3 \<and>
   map address (results (fst (main_batch (\<lambda>n. Rejects ''fetch failed'') 3000 ''abc'' ''x.com'' ''secret'' 5
       []))) =
     [''abc01@x.com'', ''abc02@x.com'', ''abc03@x.com'', ''abc04@x.com'', ''abc05@x.com''] \<and>
   pad 1 (max 2 (length (decimal_digits 100))) = ''001'' \<and>
   pad 100 (max 2 (length (decimal_digits 100))) = ''100''"
proof -
  have safe: "(5::nat) \<le> MAX_SAFE_INTEGER" by (simp add: MAX_SAFE_INTEGER_def)
  note g = generator_padding [where count = 5 and net = "\<lambda>n. Rejects ''fetch failed''" and pace = 3000
      and base = "''abc''" and domain = "''x.com''" and pw = "''secret''" and t = "[]" and others = "[]"]
  have in5: "(3::nat) \<in> {1..5}" by simp
  have w: "max 2 (length (decimal_digits 5)) = 2"
    by (simp add: decimal_digits.simps)
  from g safe in5 have three: "length (pad 3 (max 2 (length (decimal_digits 5)))) = max 2 (length (decimal_digits 5))"
    "decimal_value (pad 3 (max 2 (length (decimal_digits 5)))) = 3"
    by blast+
  have "[1..<Suc 5] = [1, 2, 3, 4, 5]"
    by (simp add: upt_conv_Cons)
  with g safe have addrs: "map address (results (fst (main_batch (\<lambda>n. Rejects ''fetch failed'') 3000 ''abc'' ''x.com'' ''secret'' 5
       []))) =
     [''abc01@x.com'', ''abc02@x.com'', ''abc03@x.com'', ''abc04@x.com'', ''abc05@x.com'']"
    by (simp add: w pad_replicate String_num_def MAX_SAFE_INTEGER_def decimal_digits.simps digit_char_def)
  have "pad 1 (max 2 (length (decimal_digits 100))) = ''001''" "pad 100 (max 2 (length (decimal_digits 100))) = ''100''"
    by (simp_all add: pad_replicate String_num_def MAX_SAFE_INTEGER_def decimal_digits.simps digit_char_def)
  with safe in5 three addrs w show ?thesis by simp
qed

text \<open>
  Claim C6 as stated fails on the workflow's generator: for its 100 accounts the claimed
  width is 3, so the first local-part would be \<open>usmansreplitaccount001\<close>; the code produces
  \<open>usmansreplitaccount1\<close>.
\<close>

theorem prepareAccountList_unpadded:
  "prepareAccountList (Resolves (DomainsOutput [''x.com''])) =
     Resolves (accounts_loop ''x.com'' ''Usman@relplit123456'' 100 1 []) \<and>
   length (accounts_loop ''x.com'' ''Usman@relplit123456'' 100 1 []) = 100 \<and>
   address (hd (accounts_loop ''x.com'' ''Usman@relplit123456'' 100 1 [])) = ''usmansreplitaccount1@x.com'' \<and>
   max 2 (length (String_num 100)) = 3 \<and>
   pad 1 (max 2 (length (String_num 100))) = ''001'' \<and>
   address (hd (accounts_loop ''x.com'' ''Usman@relplit123456'' 100 1 [])) \<noteq>
     ''usmansreplitaccount'' @ pad 1 (max 2 (length (String_num 100))) @ ''@x.com''"
proof -
  have "[1..<Suc 100] = 1 # [2..<Suc 100]"
    by (simp add: upt_conv_Cons del: upt_Suc)
  then have hd: "address (hd (accounts_loop ''x.com'' ''Usman@relplit123456'' 100 1 [])) = ''usmansreplitaccount1@x.com''"
    by (simp add: accounts_loop_map String_num_small del: upt_Suc)
  have len: "length (accounts_loop ''x.com'' ''Usman@relplit123456'' 100 1 []) = 100"
    by (simp add: accounts_loop_map del: upt_Suc)
  have p: "pad 1 (max 2 (length (String_num 100))) = ''001''"
    by (simp add: pad_replicate String_num_small)
  show ?thesis
    unfolding hd p len by (simp add: prepareAccountList_def String_num_small)
qed

text \<open>
  Claim C7. The existence probe never fails: whatever the fetch does, the promise of
  \<open>checkAccountExists\<close> resolves to a boolean, and that boolean is true exactly when the
  fetch resolved to a response with a status from 200 to 299; so it is false on a network
  exception and on any other status.
\<close>

theorem checkAccountExists_never_fails:
  "\<exists>b. checkAccountExists fetch_result = Resolves b \<and>
       (b \<longleftrightarrow> (\<exists>res. fetch_result = Resolves res \<and> 200 \<le> status res \<and> status res \<le> 299))"
  by (cases fetch_result) (auto simp: checkAccountExists_def checkAccountExists_try_def ok_def)

text \<open>
  Claim C8. For every list of results, the empty one included, \<open>exportAccountsToFile\<close> reports
  as created the number of entries with \<open>success\<close> set and as failed the number of all others,
  and the two add up to the number of entries. The \<open>success\<close> flag is how an entry carries
  its outcome class: the tool sets it exactly on its two returns for a created and for an
  already existing account.
\<close>

theorem export_counts_partition:
  "totalCreated (exportAccountsToFile now path accounts) = length (filter (\<lambda>a. success a) accounts) \<and>
   totalFailed (exportAccountsToFile now path accounts) = length (filter (\<lambda>a. \<not> success a) accounts) \<and>
   totalCreated (exportAccountsToFile now path accounts) + totalFailed (exportAccountsToFile now path accounts)
     = length accounts \<and>
   totalCreated (exportAccountsToFile now path []) = 0 \<and>
   totalFailed (exportAccountsToFile now path []) = 0 \<and>
   (success (createMailTmAccount f inputData) \<longleftrightarrow>
      message (createMailTmAccount f inputData) \<in> {''Account created successfully'', ''Account already exists''})"
  using export_counts [of now path accounts] createMailTmAccount_success [of f inputData]
  by (simp add: exportAccountsToFile_def Let_def)

text \<open>
  Claim C9, as the code has it. Whatever the run, the workflow's retry loop sleeps at most
  \<open>3000 * 2^7\<close> ms in all (the initial 3000 and at most \<open>3000 * (2^7 - 1)\<close> of backoff), and
  the CLI's \<open>createAccount\<close>, which has no initial wait, at most \<open>pace * (2^retries - 1)\<close>.
\<close>

theorem total_wait_bound:
  "sum_list (sleeps (snd (createSingleAccount validate net inputData t))) \<le>
     sum_list (sleeps t) + 3000 * 2 ^ maxRetries \<and>
   sum_list (sleeps (snd (createAccount net pace addr pw retries t))) \<le>
     sum_list (sleeps t) + pace * (2 ^ retries - 1)"
proof
  have "0 \<le> maxRetries" by simp
  from createSingleAccount_loop_trace [OF this, of validate net inputData t]
  obtain n where n: "1 \<le> n" "n \<le> Suc maxRetries"
    "sleeps (snd (createSingleAccount validate net inputData t)) = sleeps t @ map attempt_delay [0..<n]"
    unfolding createSingleAccount_def by auto
  from n(1) obtain n' where n': "n = Suc n'" by (cases n) simp_all
  with n(2) have "n' \<le> maxRetries" by simp
  then have "(2::nat) ^ n' \<le> 2 ^ maxRetries" by (simp add: power_increasing)
  then have "sum_list (map attempt_delay [0..<n]) \<le> 3000 * 2 ^ maxRetries"
    unfolding n' sum_attempt_delay by simp
  with n(3) show "sum_list (sleeps (snd (createSingleAccount validate net inputData t))) \<le>
     sum_list (sleeps t) + 3000 * 2 ^ maxRetries"
    by simp
next
  from createAccount_loop_trace [of retries 1 net addr pw pace t]
  obtain m where m: "m \<le> retries"
    "sleeps (snd (createAccount net pace addr pw retries t)) = sleeps t @ map (\<lambda>k. pace * 2 ^ k) [0..<m]"
    unfolding createAccount_def by auto
  from m(1) have "(2::nat) ^ m \<le> 2 ^ retries" by (simp add: power_increasing)
  then have "pace * (2 ^ m - 1) \<le> pace * (2 ^ retries - 1)"
    by (intro mult_le_mono2 diff_le_mono)
  with m(2) show "sum_list (sleeps (snd (createAccount net pace addr pw retries t))) \<le>
     sum_list (sleeps t) + pace * (2 ^ retries - 1)"
    by (simp add: sum_doubling)
qed

text \<open>
  Claim C9 as stated fails on the workflow: when every attempt is answered 429 the loop
  sleeps 384000 ms, more than \<open>D * (2^R - 1)\<close> = 381000 ms for \<open>D\<close> = 3000 and \<open>R\<close> = 7.
\<close>

theorem workflow_wait_exceeds_bound:
  "sum_list (sleeps (snd (createSingleAccount (\<lambda>_. None)
      (\<lambda>n. Resolves \<lparr>status = 429, text_body = Resolves ''Too Many Requests'', json_id = Rejects ''''\<rparr>)
      \<lparr>address = ''abc01@x.com'', password = ''secret''\<rparr> []))) = 384000 \<and>
   3000 * (2 ^ 7 - 1) = (381000::nat) \<and>
   \<not> sum_list (sleeps (snd (createSingleAccount (\<lambda>_. None)
      (\<lambda>n. Resolves \<lparr>status = 429, text_body = Resolves ''Too Many Requests'', json_id = Rejects ''''\<rparr>)
      \<lparr>address = ''abc01@x.com'', password = ''secret''\<rparr> [])))
     \<le> 3000 * (2 ^ 7 - 1)"
  by (simp add: createSingleAccount_all_429 log_simps)

text \<open>
  Claim C10. Every result of a creation attempt carries the address and the password of its
  input: the tool's result on any outcome of the fetch, the workflow step's result on any run
  of its retry loop (the validation-error return and the exhausted budget included), and the
  CLI's \<open>createAccount\<close> on any run of its loop.
\<close>

theorem result_carries_request:
  "address (createMailTmAccount f inputData) = address inputData \<and>
   password (createMailTmAccount f inputData) = password inputData \<and>
   address (fst (createSingleAccount validate net inputData t)) = address inputData \<and>
   password (fst (createSingleAccount validate net inputData t)) = password inputData \<and>
   address (fst (createAccount net pace addr pw retries t)) = addr \<and>
   password (fst (createAccount net pace addr pw retries t)) = pw"
  using createMailTmAccount_request [of f inputData]
    createSingleAccount_loop_request [of 0 validate net inputData t]
    createAccount_loop_request [of net addr pw retries 1 pace t]
  by (simp add: createSingleAccount_def createAccount_def)

end
